theory Spec2Isabelle
  imports Complex_Main
begin

section \<open>JavaScript Number values\<close>

text \<open>
  FFM.js documents every trait value as a JavaScript \<^verbatim>\<open>number\<close>, that is an IEEE 754
  binary64 value.  A Number is modelled by its mathematical value: a finite value is
  \<open>Num q\<close> with \<open>q\<close> its real value, \<open>Num 0\<close> is \<open>+0\<close>, and \<open>-0\<close>, the two infinities and
  \<open>NaN\<close> are constructors of their own.  The finite Number values are the \<open>Num q\<close> that
  \<open>round_binary64 q\<close> gives back (\<open>is_binary64\<close>); what holds for every \<open>Num q\<close> holds for them.
\<close>

datatype number = NaN | PosInf | NegInf | NegZero | Num real

text \<open>The mathematical value of a finite Number (written R(x) in ECMA-262).\<close>

fun mv :: "number \<Rightarrow> real" where
  "mv (Num q) = q"
| "mv x = 0"

text \<open>
  \<open>digit_count b m\<close> is the number of digits of \<open>m\<close> in base \<open>b\<close>, and \<open>ilog b a\<close> is the
  exponent of a positive \<open>a\<close>: the integer \<open>e\<close> with \<open>b\<^bsup>e\<^esup> \<le> a < b\<^bsup>e+1\<^esup>\<close>.
\<close>

function digit_count :: "int \<Rightarrow> int \<Rightarrow> int" where
  "digit_count b m = (if m \<le> 0 \<or> b \<le> 1 then 0 else 1 + digit_count b (m div b))"
  by pat_completeness auto
termination
  by (relation "measure (\<lambda>(b, m). nat m)") (auto simp: int_div_less_self)

definition ilog :: "int \<Rightarrow> real \<Rightarrow> int" where
  "ilog b a =
     (if 1 \<le> a then digit_count b \<lfloor>a\<rfloor> - 1 else - digit_count b (\<lceil>1 / a\<rceil> - 1))"

text \<open>Rounding to the nearest integer, ties to the even one.\<close>

definition round_half_even :: "real \<Rightarrow> int" where
  "round_half_even q =
     (let f = \<lfloor>q\<rfloor>; d = q - of_int f
      in if d < 1 / 2 then f
         else if 1 / 2 < d then f + 1
         else if even f then f else f + 1)"

text \<open>
  The Number value for a real \<open>x\<close> (ECMA-262 6.1.6.1, IEEE 754 roundTiesToEven):
  the significand has 53 bits, the least exponent of a normal value is \<open>-1022\<close>, below
  it the spacing stays \<^verbatim>\<open>2^-1074\<close>; a result of magnitude \<^verbatim>\<open>2^1024\<close> is replaced
  by the infinity, a zero result keeps the sign of \<open>x\<close>.
\<close>

definition ulp_exponent :: "real \<Rightarrow> int" where
  "ulp_exponent a = max (ilog 2 a) (- 1022) - 52"

definition round_magnitude :: "real \<Rightarrow> real" where
  "round_magnitude a =
     (let u = 2 powi ulp_exponent a in of_int (round_half_even (a / u)) * u)"

definition round_binary64 :: "real \<Rightarrow> number" where
  "round_binary64 x =
     (if x = 0 then Num 0
      else let r = round_magnitude \<bar>x\<bar>
           in if 2 ^ 1024 \<le> r then (if x < 0 then NegInf else PosInf)
              else if r = 0 then (if x < 0 then NegZero else Num 0)
              else Num (if x < 0 then - r else r))"

text \<open>A numeric literal of the source denotes the Number value for its decimal value.\<close>

definition literal :: "real \<Rightarrow> number" where
  "literal q = round_binary64 q"

text \<open>
  The Number values among the values of the model: the special values, and the finite
  ones that rounding gives back.
\<close>

definition is_binary64 :: "number \<Rightarrow> bool" where
  "is_binary64 x = (case x of Num q \<Rightarrow> round_binary64 q = Num q | _ \<Rightarrow> True)"

subsection \<open>Comparison\<close>

text \<open>
  \<open>Number::lessThan\<close>; \<open>None\<close> is the result \<^verbatim>\<open>undefined\<close> that a \<open>NaN\<close> operand gives.
  The operators \<^verbatim>\<open>>=\<close> and \<^verbatim>\<open><=\<close> are false when the comparison is undefined, and
  \<^verbatim>\<open>===\<close> is \<open>Number::equal\<close>.
\<close>

fun Number_lessThan :: "number \<Rightarrow> number \<Rightarrow> bool option" where
  "Number_lessThan NaN y = None"
| "Number_lessThan x NaN = None"
| "Number_lessThan PosInf y = Some False"
| "Number_lessThan x PosInf = Some True"
| "Number_lessThan x NegInf = Some False"
| "Number_lessThan NegInf y = Some True"
| "Number_lessThan x y = Some (mv x < mv y)"

definition js_ge :: "number \<Rightarrow> number \<Rightarrow> bool" where
  "js_ge x y = (case Number_lessThan x y of Some False \<Rightarrow> True | _ \<Rightarrow> False)"

definition js_le :: "number \<Rightarrow> number \<Rightarrow> bool" where
  "js_le x y = (case Number_lessThan y x of Some False \<Rightarrow> True | _ \<Rightarrow> False)"

fun is_finite :: "number \<Rightarrow> bool" where
  "is_finite (Num q) = True"
| "is_finite NegZero = True"
| "is_finite x = False"

definition Number_equal :: "number \<Rightarrow> number \<Rightarrow> bool" where
  "Number_equal x y =
     (x \<noteq> NaN \<and> y \<noteq> NaN \<and> (x = y \<or> (is_finite x \<and> is_finite y \<and> mv x = mv y)))"

subsection \<open>Arithmetic\<close>

text \<open>
  \<open>Number::add\<close> and \<open>Number::multiply\<close>: the special values first, then the exact
  result, rounded once.  A zero product has the sign of IEEE 754: negative when exactly
  one factor is.
\<close>

fun Number_add :: "number \<Rightarrow> number \<Rightarrow> number" where
  "Number_add NaN y = NaN"
| "Number_add x NaN = NaN"
| "Number_add PosInf NegInf = NaN"
| "Number_add NegInf PosInf = NaN"
| "Number_add PosInf y = PosInf"
| "Number_add NegInf y = NegInf"
| "Number_add x PosInf = PosInf"
| "Number_add x NegInf = NegInf"
| "Number_add NegZero NegZero = NegZero"
| "Number_add x y = round_binary64 (mv x + mv y)"

fun is_negative :: "number \<Rightarrow> bool" where
  "is_negative NegInf = True"
| "is_negative NegZero = True"
| "is_negative (Num q) = (q < 0)"
| "is_negative x = False"

definition Number_multiply :: "number \<Rightarrow> number \<Rightarrow> number" where
  "Number_multiply x y =
     (if x = NaN \<or> y = NaN then NaN
      else if \<not> is_finite x \<or> \<not> is_finite y then
        (if (is_finite x \<and> mv x = 0) \<or> (is_finite y \<and> mv y = 0) then NaN
         else if is_negative x = is_negative y then PosInf else NegInf)
      else if mv x = 0 \<or> mv y = 0 then
        (if is_negative x = is_negative y then Num 0 else NegZero)
      else round_binary64 (mv x * mv y))"

subsection \<open>\<^verbatim>\<open>Math.ceil\<close>, \<^verbatim>\<open>Math.max\<close>, \<^verbatim>\<open>Math.min\<close>\<close>

fun Math_ceil :: "number \<Rightarrow> number" where
  "Math_ceil (Num q) =
     (if q = 0 then Num 0
      else if q < 0 \<and> - 1 < q then NegZero
      else Num (of_int \<lceil>q\<rceil>))"
| "Math_ceil x = x"

text \<open>
  \<^verbatim>\<open>Math.max\<close> starts from \<open>-\<infinity>\<close> and \<^verbatim>\<open>Math.min\<close> from \<open>+\<infinity>\<close>; a \<open>NaN\<close> argument
  makes the result \<open>NaN\<close>, and \<open>+0\<close> counts as larger than \<open>-0\<close>.
\<close>

fun max_loop :: "number \<Rightarrow> number list \<Rightarrow> number" where
  "max_loop highest [] = highest"
| "max_loop highest (n # ns) =
     (if n = NaN then NaN
      else if n = Num 0 \<and> highest = NegZero then max_loop (Num 0) ns
      else if Number_lessThan highest n = Some True then max_loop n ns
      else max_loop highest ns)"

definition Math_max :: "number list \<Rightarrow> number" where
  "Math_max coerced = max_loop NegInf coerced"

fun min_loop :: "number \<Rightarrow> number list \<Rightarrow> number" where
  "min_loop lowest [] = lowest"
| "min_loop lowest (n # ns) =
     (if n = NaN then NaN
      else if n = NegZero \<and> lowest = Num 0 then min_loop NegZero ns
      else if Number_lessThan n lowest = Some True then min_loop n ns
      else min_loop lowest ns)"

definition Math_min :: "number list \<Rightarrow> number" where
  "Math_min coerced = min_loop PosInf coerced"

subsection \<open>Conversion to a string\<close>

text \<open>
  A template literal converts a Number with \<open>Number::toString\<close> in radix 10: the
  decimal \<open>s \<times> 10\<^bsup>n-k\<^esup>\<close> with the fewest digits \<open>k\<close> whose Number value is the
  Number itself (the closest one, if several have \<open>k\<close> digits), written without
  exponent when \<open>-5 \<le> n \<le> 21\<close>.  Seventeen digits identify every binary64 value, so
  the search ends on every Number value; only a \<open>Num q\<close> that is no Number value reaches
  the last case of \<open>Number_toString\<close>.
\<close>

definition digit :: "int \<Rightarrow> char" where
  "digit d = ''0123456789'' ! nat d"

function digits :: "int \<Rightarrow> string" where
  "digits n = (if n < 10 then [digit n] else digits (n div 10) @ [digit (n mod 10)])"
  by pat_completeness auto
termination
  by (relation "measure nat") auto

definition decimal_candidates :: "real \<Rightarrow> int \<Rightarrow> (int \<times> int) list" where
  "decimal_candidates v k =
     (let n0 = ilog 10 v + 1
      in concat (map (\<lambda>n.
           let t = \<lfloor>v / 10 powi (n - k)\<rfloor>
           in map (\<lambda>s. (n, s))
                (filter (\<lambda>s. 10 ^ nat (k - 1) \<le> s \<and> s < 10 ^ nat k \<and>
                             round_binary64 (of_int s * 10 powi (n - k)) = Num v)
                   [t, t + 1]))
         [n0, n0 + 1]))"

definition decimal_error :: "real \<Rightarrow> int \<Rightarrow> int \<times> int \<Rightarrow> real" where
  "decimal_error v k c = \<bar>of_int (snd c) * 10 powi (fst c - k) - v\<bar>"

fun closest :: "real \<Rightarrow> int \<Rightarrow> (int \<times> int) list \<Rightarrow> (int \<times> int) option" where
  "closest v k [] = None"
| "closest v k (c # cs) =
     (case closest v k cs of
        None \<Rightarrow> Some c
      | Some c' \<Rightarrow>
          if decimal_error v k c < decimal_error v k c' then Some c
          else if decimal_error v k c' < decimal_error v k c then Some c'
          else if even (snd c) then Some c else Some c')"

fun shortest :: "real \<Rightarrow> int list \<Rightarrow> (int \<times> int \<times> int) option" where
  "shortest v [] = None"
| "shortest v (k # ks) =
     (case closest v k (decimal_candidates v k) of
        Some (n, s) \<Rightarrow> Some (n, k, s)
      | None \<Rightarrow> shortest v ks)"

definition format_decimal :: "int \<Rightarrow> int \<Rightarrow> int \<Rightarrow> string" where
  "format_decimal n k s =
     (let ds = digits s
      in if - 5 \<le> n \<and> n \<le> 21 then
           (if k \<le> n then ds @ replicate (nat (n - k)) CHR ''0''
            else if 0 < n then take (nat n) ds @ ''.'' @ drop (nat n) ds
            else ''0.'' @ replicate (nat (- n)) CHR ''0'' @ ds)
         else
           (let e = n - 1;
                es = (if e < 0 then ''-'' else ''+'') @ digits \<bar>e\<bar>
            in if k = 1 then ds @ ''e'' @ es
               else take 1 ds @ ''.'' @ drop 1 ds @ ''e'' @ es))"

fun Number_toString :: "number \<Rightarrow> string" where
  "Number_toString NaN = ''NaN''"
| "Number_toString PosInf = ''Infinity''"
| "Number_toString NegInf = ''-Infinity''"
| "Number_toString NegZero = ''0''"
| "Number_toString (Num q) =
     (if q = 0 then ''0''
      else (if q < 0 then ''-'' else '''') @
           (case shortest \<bar>q\<bar> [1, 2, 3, 4, 5, 6, 7, 8, 9, 10, 11, 12, 13, 14, 15, 16, 17] of
              Some (n, k, s) \<Rightarrow> format_decimal n k s
            | None \<Rightarrow> ''NaN''))"

section \<open>The class \<^verbatim>\<open>FFM\<close>\<close>

text \<open>
  An object holds the five fields \<^verbatim>\<open>_openness\<close>, \<^verbatim>\<open>_conscientiousness\<close>,
  \<^verbatim>\<open>_extraversion\<close>, \<^verbatim>\<open>_agreeableness\<close> and \<^verbatim>\<open>_neuroticism\<close>, named \<open>f_openness\<close> and
  so on here.  A \<^verbatim>\<open>throw\<close> is the left injection of a sum; the thrown value is
  \<^verbatim>\<open>new Error(message)\<close>.
\<close>

record FFM =
  f_openness :: number
  f_conscientiousness :: number
  f_extraversion :: number
  f_agreeableness :: number
  f_neuroticism :: number

datatype error = Error string

definition TRAIT_VALUE_MIN :: number where
  "TRAIT_VALUE_MIN = literal 0"

definition TRAIT_VALUE_MAX :: number where
  "TRAIT_VALUE_MAX = literal 1"

definition TRAIT_VALUE_AVG :: number where
  "TRAIT_VALUE_AVG = literal (5 / 10)"

definition trait_isInRange :: "number \<Rightarrow> bool" where
  "trait_isInRange value \<longleftrightarrow> js_ge value TRAIT_VALUE_MIN \<and> js_le value TRAIT_VALUE_MAX"

definition constructor ::
  "number \<Rightarrow> number \<Rightarrow> number \<Rightarrow> number \<Rightarrow> number \<Rightarrow> error + FFM" where
  "constructor openness conscientiousness extraversion agreeableness neuroticism =
     (if \<not> trait_isInRange openness \<or> \<not> trait_isInRange conscientiousness \<or>
         \<not> trait_isInRange extraversion \<or> \<not> trait_isInRange agreeableness \<or>
         \<not> trait_isInRange neuroticism
      then Inl (Error ''Personality trait values must be between 0 and 1.0 inclusive.'')
      else Inr \<lparr>f_openness = openness, f_conscientiousness = conscientiousness,
                f_extraversion = extraversion, f_agreeableness = agreeableness,
                f_neuroticism = neuroticism\<rparr>)"

definition createAveragePersonality :: "error + FFM" where
  "createAveragePersonality =
     constructor TRAIT_VALUE_AVG TRAIT_VALUE_AVG TRAIT_VALUE_AVG TRAIT_VALUE_AVG TRAIT_VALUE_AVG"

definition calculateLikertScore :: "number \<Rightarrow> error + number" where
  "calculateLikertScore value =
     (if \<not> trait_isInRange value
      then Inl (Error ''Personality trait values must be between 0 and 1.0 inclusive.'')
      else let epsilon = literal (1 / 10 ^ 10);
               score = Math_ceil (Number_multiply (Number_add value epsilon) (literal 5))
           in Inr (Math_min [Math_max [score, literal 1], literal 5]))"

subsection \<open>Getters and setters\<close>

text \<open>
  A setter returns the error it throws, if any, with the state of the object after the
  call: the check comes before the assignment, so a throwing setter has assigned nothing.
\<close>

definition openness :: "FFM \<Rightarrow> number" where
  "openness this = f_openness this"

definition set_openness :: "number \<Rightarrow> FFM \<Rightarrow> error option \<times> FFM" where
  "set_openness value this =
     (if \<not> trait_isInRange value
      then (Some (Error ''Openness value must be between 0 and 1.0 inclusive.''), this)
      else (None, this\<lparr>f_openness := value\<rparr>))"

definition conscientiousness :: "FFM \<Rightarrow> number" where
  "conscientiousness this = f_conscientiousness this"

definition set_conscientiousness :: "number \<Rightarrow> FFM \<Rightarrow> error option \<times> FFM" where
  "set_conscientiousness value this =
     (if \<not> trait_isInRange value
      then (Some (Error ''Conscientiousness value must be between 0 and 1.0 inclusive.''), this)
      else (None, this\<lparr>f_conscientiousness := value\<rparr>))"

definition extraversion :: "FFM \<Rightarrow> number" where
  "extraversion this = f_extraversion this"

definition set_extraversion :: "number \<Rightarrow> FFM \<Rightarrow> error option \<times> FFM" where
  "set_extraversion value this =
     (if \<not> trait_isInRange value
      then (Some (Error ''Extraversion value must be between 0 and 1.0 inclusive.''), this)
      else (None, this\<lparr>f_extraversion := value\<rparr>))"

definition agreeableness :: "FFM \<Rightarrow> number" where
  "agreeableness this = f_agreeableness this"

definition set_agreeableness :: "number \<Rightarrow> FFM \<Rightarrow> error option \<times> FFM" where
  "set_agreeableness value this =
     (if \<not> trait_isInRange value
      then (Some (Error ''Agreeableness value must be between 0 and 1.0 inclusive.''), this)
      else (None, this\<lparr>f_agreeableness := value\<rparr>))"

definition neuroticism :: "FFM \<Rightarrow> number" where
  "neuroticism this = f_neuroticism this"

definition set_neuroticism :: "number \<Rightarrow> FFM \<Rightarrow> error option \<times> FFM" where
  "set_neuroticism value this =
     (if \<not> trait_isInRange value
      then (Some (Error ''Neuroticism value must be between 0 and 1.0 inclusive.''), this)
      else (None, this\<lparr>f_neuroticism := value\<rparr>))"

subsection \<open>\<^verbatim>\<open>describe\<close> and \<^verbatim>\<open>toString\<close>\<close>

text \<open>
  \<^verbatim>\<open>describe\<close> walks the keys of \<^verbatim>\<open>traits\<close> in insertion order and assigns to the
  same key of \<^verbatim>\<open>descriptions\<close>; reading a property that is absent gives
  \<^verbatim>\<open>undefined\<close>.  A throw of \<^verbatim>\<open>calculateLikertScore\<close> leaves the method at once.
\<close>

definition property :: "(string \<rightharpoonup> string) \<Rightarrow> string \<Rightarrow> string" where
  "property obj key = (case obj key of Some s \<Rightarrow> s | None \<Rightarrow> ''undefined'')"

fun describe_loop ::
  "(string \<times> number) list \<Rightarrow> (string \<rightharpoonup> string) \<Rightarrow> error + (string \<rightharpoonup> string)" where
  "describe_loop [] descriptions = Inr descriptions"
| "describe_loop ((trait, v) # traits) descriptions =
     (case calculateLikertScore v of
        Inl e \<Rightarrow> Inl e
      | Inr score \<Rightarrow>
          describe_loop traits
            (if Number_equal score (literal 1) then descriptions(trait \<mapsto> ''not '' @ trait)
             else if Number_equal score (literal 2) then descriptions(trait \<mapsto> ''slightly '' @ trait)
             else if Number_equal score (literal 3) then descriptions(trait \<mapsto> ''somewhat '' @ trait)
             else if Number_equal score (literal 4) then descriptions(trait \<mapsto> ''moderately '' @ trait)
             else if Number_equal score (literal 5) then descriptions(trait \<mapsto> ''strongly '' @ trait)
             else descriptions))"

definition describe :: "FFM \<Rightarrow> error + string" where
  "describe this =
     (let traits = [(''open'', f_openness this),
                    (''conscientious'', f_conscientiousness this),
                    (''extraverted'', f_extraversion this),
                    (''agreeable'', f_agreeableness this),
                    (''neurotic'', f_neuroticism this)];
          descriptions = [''open'' \<mapsto> '''', ''conscientious'' \<mapsto> '''', ''extraverted'' \<mapsto> '''',
                          ''agreeable'' \<mapsto> '''', ''neurotic'' \<mapsto> '''']
      in case describe_loop traits descriptions of
           Inl e \<Rightarrow> Inl e
         | Inr descriptions \<Rightarrow>
             Inr (''According to the Five Factor Model this personality is: '' @
                  property descriptions ''open'' @ '', '' @
                  property descriptions ''conscientious'' @ '', '' @
                  property descriptions ''extraverted'' @ '', '' @
                  property descriptions ''agreeable'' @ '', and '' @
                  property descriptions ''neurotic'' @ ''.''))"

definition toString :: "FFM \<Rightarrow> error + string" where
  "toString this =
     (let normalized =
            ''O:'' @ Number_toString (f_openness this) @
            '', C:'' @ Number_toString (f_conscientiousness this) @
            '', E:'' @ Number_toString (f_extraversion this) @
            '', A:'' @ Number_toString (f_agreeableness this) @
            '', N:'' @ Number_toString (f_neuroticism this)
      in case calculateLikertScore (f_openness this) of Inl e \<Rightarrow> Inl e | Inr so \<Rightarrow>
        (case calculateLikertScore (f_conscientiousness this) of Inl e \<Rightarrow> Inl e | Inr sc \<Rightarrow>
        (case calculateLikertScore (f_extraversion this) of Inl e \<Rightarrow> Inl e | Inr se \<Rightarrow>
        (case calculateLikertScore (f_agreeableness this) of Inl e \<Rightarrow> Inl e | Inr sa \<Rightarrow>
        (case calculateLikertScore (f_neuroticism this) of Inl e \<Rightarrow> Inl e | Inr sn \<Rightarrow>
           (let likert =
                  ''O:'' @ Number_toString so @ '', C:'' @ Number_toString sc @
                  '', E:'' @ Number_toString se @ '', A:'' @ Number_toString sa @
                  '', N:'' @ Number_toString sn
            in Inr (''FFM[Normalized:{'' @ normalized @ ''}, Likert:{'' @ likert @ ''}]'')))))))"

text \<open>The five traits, to speak about all setters and getters at once.\<close>

datatype trait = Openness | Conscientiousness | Extraversion | Agreeableness | Neuroticism

fun getter :: "trait \<Rightarrow> FFM \<Rightarrow> number" where
  "getter Openness = openness"
| "getter Conscientiousness = conscientiousness"
| "getter Extraversion = extraversion"
| "getter Agreeableness = agreeableness"
| "getter Neuroticism = neuroticism"

fun setter :: "trait \<Rightarrow> number \<Rightarrow> FFM \<Rightarrow> error option \<times> FFM" where
  "setter Openness = set_openness"
| "setter Conscientiousness = set_conscientiousness"
| "setter Extraversion = set_extraversion"
| "setter Agreeableness = set_agreeableness"
| "setter Neuroticism = set_neuroticism"

fun trait_name :: "trait \<Rightarrow> string" where
  "trait_name Openness = ''Openness''"
| "trait_name Conscientiousness = ''Conscientiousness''"
| "trait_name Extraversion = ''Extraversion''"
| "trait_name Agreeableness = ''Agreeableness''"
| "trait_name Neuroticism = ''Neuroticism''"

text \<open>
  The objects a caller can hold: made by the constructor or by
  \<^verbatim>\<open>createAveragePersonality\<close>, then changed by setter calls only, whether they throw
  or not.
\<close>

inductive reachable :: "FFM \<Rightarrow> bool" where
  constructed: "constructor o1 c1 e1 a1 n1 = Inr this \<Longrightarrow> reachable this"
| average: "createAveragePersonality = Inr this \<Longrightarrow> reachable this"
| assigned: "reachable this \<Longrightarrow> reachable (snd (setter t value this))"

section \<open>Notions of the specification\<close>

text \<open>The closed interval \<open>[0, 1]\<close>: a finite Number whose value lies between 0 and 1.\<close>

definition in_unit_interval :: "number \<Rightarrow> bool" where
  "in_unit_interval x \<longleftrightarrow> is_finite x \<and> 0 \<le> mv x \<and> mv x \<le> 1"

text \<open>
  The Likert conversion in the words of the specification: add the epsilon, multiply
  by 5, take the ceiling, clamp the result into \<open>[1, 5]\<close>; outside \<open>[0, 1]\<close> the range
  violation.
\<close>

definition clamp :: "number \<Rightarrow> number \<Rightarrow> number \<Rightarrow> number" where
  "clamp lo hi x =
     (if Number_lessThan x lo = Some True then lo
      else if Number_lessThan hi x = Some True then hi
      else x)"

definition likert_spec :: "number \<Rightarrow> error + number" where
  "likert_spec v =
     (if in_unit_interval v
      then Inr (clamp (literal 1) (literal 5)
                  (Math_ceil (Number_multiply (Number_add v (literal (1 / 10 ^ 10))) (literal 5))))
      else Inl (Error ''Personality trait values must be between 0 and 1.0 inclusive.''))"

text \<open>The same conversion on the value of a trait, as an integer.\<close>

definition likert_bucket :: "real \<Rightarrow> int" where
  "likert_bucket q =
     min 5 (max 1 \<lceil>round_magnitude (round_magnitude (q + mv (literal (1 / 10 ^ 10))) * 5)\<rceil>)"

text \<open>The adverb of a Likert score.\<close>

definition adverb :: "int \<Rightarrow> string" where
  "adverb score =
     (if score = 1 then ''not''
      else if score = 2 then ''slightly''
      else if score = 3 then ''somewhat''
      else if score = 4 then ''moderately''
      else if score = 5 then ''strongly''
      else '''')"

section \<open>Rounding is monotone\<close>

text \<open>
  The exponent found by \<open>ilog\<close> brackets its argument, so two positive reals are either
  rounded on the same grid or separated by a power of two that both roundings respect.
\<close>

declare digit_count.simps [simp del]

declare digits.simps [simp del]

lemma digit_count_pos: "0 < m \<Longrightarrow> 1 < b \<Longrightarrow> 1 \<le> digit_count b m"
proof (induction b m rule: digit_count.induct)
  case (1 b m)
  show ?case
  proof (cases "m div b \<le> 0")
    case True
    then show ?thesis using 1(2,3) by (simp add: digit_count.simps[of b m] digit_count.simps[of b "m div b"])
  next
    case False
    then have "1 \<le> digit_count b (m div b)" using 1 by simp
    then show ?thesis using 1(2,3) by (simp add: digit_count.simps[of b m])
  qed
qed

lemma digit_count_bounds:
  "0 < m \<Longrightarrow> 1 < b \<Longrightarrow> b ^ nat (digit_count b m - 1) \<le> m \<and> m < b ^ nat (digit_count b m)"
proof (induction b m rule: digit_count.induct)
  case (1 b m)
  have dc: "digit_count b m = 1 + digit_count b (m div b)"
    using 1(2,3) by (simp add: digit_count.simps[of b m])
  show ?case
  proof (cases "m div b \<le> 0")
    case True
    then have z: "digit_count b (m div b) = 0" by (simp add: digit_count.simps[of b "m div b"])
    have "m div b = 0" using True 1(2,3) by (smt (verit) pos_imp_zdiv_nonneg_iff)
    then have "m < b" using 1(2,3) by (smt (verit) div_pos_pos_trivial int_div_less_self zdiv_eq_0_iff)
    then show ?thesis using 1(2,3) z \<open>m div b = 0\<close> by (simp add: dc)
  next
    case False
    then have pos: "0 < m div b" by simp
    then have ih: "b ^ nat (digit_count b (m div b) - 1) \<le> m div b" "m div b < b ^ nat (digit_count b (m div b))"
      using 1 by simp_all
    have d1: "1 \<le> digit_count b (m div b)" using digit_count_pos pos 1(3) by simp
    define d where "d = nat (digit_count b (m div b) - 1)"
    have nd: "nat (digit_count b (m div b)) = Suc d" using d1 by (simp add: d_def)
    have nd': "nat (digit_count b m - 1) = Suc d" "nat (digit_count b m) = Suc (Suc d)" using d1 dc by (simp_all add: d_def)
    have eq: "m = b * (m div b) + m mod b" by simp
    have md: "0 \<le> m mod b" "m mod b < b" using 1(3) by simp_all
    have le: "b * (m div b) \<le> m" using eq md by linarith
    have "m < b * (m div b) + b" using eq md by linarith
    then have lt: "m < b * (m div b + 1)" by (simp add: algebra_simps)
    have "b ^ Suc d \<le> b * (m div b)" using ih(1) 1(3) by (simp add: d_def)
    moreover have "b * (m div b + 1) \<le> b * b ^ Suc d" using ih(2) 1(3) by (simp add: nd)
    ultimately show ?thesis using le lt by (simp add: nd')
  qed
qed

lemma round_half_even_of_int: "round_half_even (of_int n) = n"
  by (simp add: round_half_even_def)

lemma round_half_even_mono: "x \<le> y \<Longrightarrow> round_half_even x \<le> round_half_even y"
proof -
  assume le: "x \<le> y"
  have fl: "\<lfloor>x\<rfloor> \<le> \<lfloor>y\<rfloor>" using le by (rule floor_mono)
  show ?thesis
  proof (cases "\<lfloor>x\<rfloor> = \<lfloor>y\<rfloor>")
    case True
    then show ?thesis using le unfolding round_half_even_def Let_def by auto
  next
    case False
    then have "\<lfloor>x\<rfloor> + 1 \<le> \<lfloor>y\<rfloor>" using fl by simp
    moreover have "round_half_even x \<le> \<lfloor>x\<rfloor> + 1" unfolding round_half_even_def Let_def by auto
    moreover have "\<lfloor>y\<rfloor> \<le> round_half_even y" unfolding round_half_even_def Let_def by auto
    ultimately show ?thesis by linarith
  qed
qed

lemma ilog2_bounds:
  assumes "0 < a"
  shows "2 powi (ilog 2 a) \<le> a \<and> a < 2 powi (ilog 2 a + 1)"
proof (cases "1 \<le> a")
  case True
  define m where "m = \<lfloor>a\<rfloor>"
  have m1: "1 \<le> m" using True by (simp add: m_def)
  define d where "d = nat (digit_count 2 m - 1)"
  have dc1: "1 \<le> digit_count 2 m" using digit_count_pos[of m 2] m1 by simp
  have dc: "digit_count 2 m = int d + 1" using dc1 by (simp add: d_def)
  have b: "2 ^ d \<le> m" "m < 2 ^ Suc d"
    using digit_count_bounds[of m 2] m1 by (simp_all add: dc nat_add_distrib)
  have il: "ilog 2 a = int d" using True dc by (simp add: ilog_def m_def)
  have "(2::real) ^ d \<le> of_int m" using b(1) by (metis of_int_le_iff of_int_numeral of_int_power)
  also have "\<dots> \<le> a" by (simp add: m_def)
  finally have lo: "(2::real) ^ d \<le> a" .
  have "m + 1 \<le> 2 ^ Suc d" using b(2) by simp
  then have "of_int (m + 1) \<le> (2::real) ^ Suc d" by (metis of_int_le_iff of_int_numeral of_int_power)
  moreover have "a < of_int (m + 1)" by (simp add: m_def)
  ultimately have hi: "a < (2::real) ^ Suc d" by linarith
  have p1: "(2::real) powi (int d) = 2 ^ d" by simp
  have p2: "(2::real) powi (int d + 1) = 2 ^ Suc d" by (metis of_nat_Suc power_int_of_nat add.commute)
  show ?thesis using lo hi by (simp only: il p1 p2)
next
  case False
  then have a1: "a < 1" by simp
  define y where "y = 1 / a"
  have y1: "1 < y" using assms a1 by (simp add: y_def)
  define m where "m = \<lceil>y\<rceil> - 1"
  have m1: "1 \<le> m" using y1 by (simp add: m_def)
  have my: "of_int m < y" "y \<le> of_int m + 1" unfolding m_def by linarith+
  define d where "d = nat (digit_count 2 m - 1)"
  have dc1: "1 \<le> digit_count 2 m" using digit_count_pos[of m 2] m1 by simp
  have dc: "digit_count 2 m = int d + 1" using dc1 by (simp add: d_def)
  have b: "2 ^ d \<le> m" "m < 2 ^ Suc d"
    using digit_count_bounds[of m 2] m1 by (simp_all add: dc nat_add_distrib)
  have il: "ilog 2 a = - (int d + 1)" using False dc by (simp add: ilog_def m_def y_def)
  have "(2::real) ^ d \<le> of_int m" using b(1) by (metis of_int_le_iff of_int_numeral of_int_power)
  then have lo: "(2::real) ^ d < y" using my(1) by linarith
  have "m + 1 \<le> 2 ^ Suc d" using b(2) by simp
  then have "of_int (m + 1) \<le> (2::real) ^ Suc d" by (metis of_int_le_iff of_int_numeral of_int_power)
  then have hi: "y \<le> (2::real) ^ Suc d" using my(2) by simp
  have p1: "(2::real) powi (- (int d + 1)) = 1 / 2 ^ Suc d"
    by (metis of_nat_Suc power_int_of_nat add.commute power_int_minus inverse_eq_divide)
  have p2: "(2::real) powi (- (int d + 1) + 1) = 1 / 2 ^ d"
    by (simp add: power_int_minus inverse_eq_divide)
  have ay: "a = 1 / y" by (simp add: y_def)
  have ypos: "0 < y" using y1 by simp
  have g1: "1 / 2 ^ Suc d \<le> 1 / y" using hi ypos by (simp add: frac_le)
  have g2: "1 / y < 1 / (2::real) ^ d" using lo by (simp add: frac_less2)
  have "1 / 2 ^ Suc d \<le> a \<and> a < 1 / (2::real) ^ d" using g1 g2 ay by simp
  then show ?thesis by (simp only: il p1 p2)
qed

lemma ilog2_mono:
  assumes "0 < a" "a \<le> b"
  shows "ilog 2 a \<le> ilog 2 b"
proof (rule ccontr)
  assume "\<not> ilog 2 a \<le> ilog 2 b"
  then have "ilog 2 b + 1 \<le> ilog 2 a" by simp
  then have "(2::real) powi (ilog 2 b + 1) \<le> 2 powi (ilog 2 a)"
    by (intro power_int_increasing) simp_all
  moreover have "b < 2 powi (ilog 2 b + 1)" using ilog2_bounds[of b] assms by simp
  moreover have "2 powi (ilog 2 a) \<le> a" using ilog2_bounds[of a] assms by simp
  ultimately show False using assms(2) by linarith
qed

lemma round_magnitude_eq:
  "round_magnitude a = of_int (round_half_even (a / 2 powi ulp_exponent a)) * 2 powi ulp_exponent a"
  by (simp add: round_magnitude_def Let_def)

lemma scale_53: "(2::real) powi (e + 53) = 2 ^ 53 * 2 powi e"
  by (simp add: power_int_add)

lemma scale_52: "(2::real) powi e = 2 ^ 52 * 2 powi (e - 52)"
proof -
  have "(2::real) powi ((e - 52) + 52) = 2 powi (e - 52) * 2 powi 52"
    by (rule power_int_add) simp
  then show ?thesis by simp
qed

lemma round_magnitude_upper:
  assumes "0 < a"
  shows "round_magnitude a \<le> 2 powi (ulp_exponent a + 53)"
proof -
  define u :: real where "u = 2 powi ulp_exponent a"
  have u: "0 < u" by (simp add: u_def)
  have "ilog 2 a + 1 \<le> ulp_exponent a + 53" by (simp add: ulp_exponent_def)
  then have "(2::real) powi (ilog 2 a + 1) \<le> 2 powi (ulp_exponent a + 53)"
    by (intro power_int_increasing) simp_all
  then have "a \<le> 2 ^ 53 * u" using ilog2_bounds[OF assms] by (simp add: scale_53 u_def)
  then have "a / u \<le> of_int (2 ^ 53)" using u by (simp add: field_simps)
  then have "round_half_even (a / u) \<le> 2 ^ 53"
    using round_half_even_mono round_half_even_of_int by metis
  then have "of_int (round_half_even (a / u)) \<le> (2::real) ^ 53"
    by (metis of_int_le_iff of_int_numeral of_int_power)
  then have "of_int (round_half_even (a / u)) * u \<le> 2 ^ 53 * u"
    using u by (simp only: mult_le_cancel_right_pos)
  then show ?thesis by (simp only: round_magnitude_eq scale_53 u_def)
qed

lemma round_magnitude_lower:
  assumes "0 < a" "- 1022 \<le> ilog 2 a"
  shows "2 powi (ilog 2 a) \<le> round_magnitude a"
proof -
  define u :: real where "u = 2 powi ulp_exponent a"
  have u: "0 < u" by (simp add: u_def)
  have ue: "ulp_exponent a = ilog 2 a - 52" using assms(2) by (simp add: ulp_exponent_def)
  have sc: "(2::real) powi (ilog 2 a) = 2 ^ 52 * u" unfolding u_def ue by (rule scale_52)
  have "2 ^ 52 * u \<le> a" using ilog2_bounds[OF assms(1)] sc by simp
  then have "of_int (2 ^ 52) \<le> a / u" using u by (simp add: field_simps)
  then have "2 ^ 52 \<le> round_half_even (a / u)"
    using round_half_even_mono round_half_even_of_int by metis
  then have "(2::real) ^ 52 \<le> of_int (round_half_even (a / u))"
    by (metis of_int_le_iff of_int_numeral of_int_power)
  then have "2 ^ 52 * u \<le> of_int (round_half_even (a / u)) * u"
    using u by (simp only: mult_le_cancel_right_pos)
  then show ?thesis by (simp only: round_magnitude_eq sc u_def)
qed

lemma round_magnitude_mono:
  assumes "0 < a" "a \<le> b"
  shows "round_magnitude a \<le> round_magnitude b"
proof -
  have b: "0 < b" using assms by simp
  have il: "ilog 2 a \<le> ilog 2 b" using assms by (rule ilog2_mono)
  then have ue: "ulp_exponent a \<le> ulp_exponent b" by (simp add: ulp_exponent_def)
  show ?thesis
  proof (cases "ulp_exponent a = ulp_exponent b")
    case True
    define u :: real where "u = 2 powi ulp_exponent b"
    have u: "0 < u" by (simp add: u_def)
    have "a / u \<le> b / u" using assms(2) u by (simp add: divide_right_mono)
    then have "round_half_even (a / u) \<le> round_half_even (b / u)" by (rule round_half_even_mono)
    then have "(of_int (round_half_even (a / u)) :: real) \<le> of_int (round_half_even (b / u))" by simp
    then have "of_int (round_half_even (a / u)) * u \<le> of_int (round_half_even (b / u)) * u"
      using u by (simp only: mult_le_cancel_right_pos)
    then show ?thesis by (simp only: round_magnitude_eq True u_def)
  next
    case False
    then have lt: "ulp_exponent a < ulp_exponent b" using ue by simp
    then have big: "- 1022 \<le> ilog 2 b" and e: "ulp_exponent a + 53 \<le> ilog 2 b"
      by (simp_all add: ulp_exponent_def max_def split: if_splits)
    have "round_magnitude a \<le> 2 powi (ulp_exponent a + 53)" using assms(1) by (rule round_magnitude_upper)
    also have "\<dots> \<le> 2 powi (ilog 2 b)" using e by (intro power_int_increasing) simp_all
    also have "\<dots> \<le> round_magnitude b" using b big by (rule round_magnitude_lower)
    finally show ?thesis .
  qed
qed

section \<open>Constants and the range check\<close>

text \<open>
  Closed terms are evaluated by rewriting with the definitions of the rounding.  The
  epsilon \<^verbatim>\<open>1e-10\<close> is the Number \<^verbatim>\<open>7737125245533627 / 2^86\<close>.
\<close>

lemmas rounding_eval =
  round_binary64_def round_magnitude_def ulp_exponent_def round_half_even_def ilog_def
  digit_count.simps Let_def power_int_minus

lemma literal_small [simp]:
  "literal 0 = Num 0" "literal 1 = Num 1" "literal 2 = Num 2" "literal 3 = Num 3"
  "literal 4 = Num 4" "literal 5 = Num 5" "literal (1 / 2) = Num (1 / 2)"
  by (simp_all add: literal_def rounding_eval)

lemma literal_epsilon: "literal (1 / 10 ^ 10) = Num (7737125245533627 / 2 ^ 86)"
  by (simp add: literal_def rounding_eval)

lemmas literal_epsilon_nf = literal_epsilon [simplified]

lemma round_epsilon: "round_magnitude (7737125245533627 / 2 ^ 86) = 7737125245533627 / 2 ^ 86"
  by (simp add: rounding_eval)

lemma round_one_epsilon: "round_magnitude (1 + 7737125245533627 / 2 ^ 86) = 562949953477607 / 2 ^ 49"
  by (simp add: rounding_eval)

lemma round_five_epsilon: "round_magnitude (7737125245533627 / 2 ^ 86 * 5) = 4835703278458517 / 2 ^ 83"
  by (simp add: rounding_eval)

lemma round_five_one_epsilon: "round_magnitude (562949953477607 / 2 ^ 49 * 5) = 2814749767388035 / 2 ^ 49"
  by (simp add: rounding_eval)

lemma trait_constants [simp]:
  "TRAIT_VALUE_MIN = Num 0" "TRAIT_VALUE_MAX = Num 1" "TRAIT_VALUE_AVG = Num (1 / 2)"
  by (simp_all add: TRAIT_VALUE_MIN_def TRAIT_VALUE_MAX_def TRAIT_VALUE_AVG_def)

lemma trait_isInRange_iff: "trait_isInRange x \<longleftrightarrow> in_unit_interval x"
  by (cases x) (auto simp: trait_isInRange_def in_unit_interval_def js_ge_def js_le_def split: bool.splits)

lemma Math_max_pair: "Math_max [Num a, Num b] = Num (max a b)"
  by (simp add: Math_max_def max_def)

lemma Math_min_pair: "Math_min [Num a, Num b] = Num (min a b)"
  by (simp add: Math_min_def min_def)

lemma epsilon_sum_bounds:
  assumes "0 \<le> q" "q \<le> 1"
  shows "7737125245533627 / 2 ^ 86 \<le> round_magnitude (q + 7737125245533627 / 2 ^ 86)"
    and "round_magnitude (q + 7737125245533627 / 2 ^ 86) \<le> 562949953477607 / 2 ^ 49"
proof -
  have "round_magnitude (7737125245533627 / 2 ^ 86) \<le> round_magnitude (q + 7737125245533627 / 2 ^ 86)"
    using assms by (intro round_magnitude_mono) simp_all
  then show "7737125245533627 / 2 ^ 86 \<le> round_magnitude (q + 7737125245533627 / 2 ^ 86)"
    by (simp only: round_epsilon)
  have "round_magnitude (q + 7737125245533627 / 2 ^ 86) \<le> round_magnitude (1 + 7737125245533627 / 2 ^ 86)"
    using assms by (intro round_magnitude_mono) simp_all
  then show "round_magnitude (q + 7737125245533627 / 2 ^ 86) \<le> 562949953477607 / 2 ^ 49"
    by (simp only: round_one_epsilon)
qed

lemma product_bounds:
  assumes "7737125245533627 / 2 ^ 86 \<le> r" "r \<le> 562949953477607 / 2 ^ 49"
  shows "4835703278458517 / 2 ^ 83 \<le> round_magnitude (r * 5)"
    and "round_magnitude (r * 5) \<le> 2814749767388035 / 2 ^ 49"
proof -
  have "round_magnitude (7737125245533627 / 2 ^ 86 * 5) \<le> round_magnitude (r * 5)"
    using assms by (intro round_magnitude_mono) simp_all
  then show "4835703278458517 / 2 ^ 83 \<le> round_magnitude (r * 5)"
    by (simp only: round_five_epsilon)
  have r: "0 < r" using assms(1) by (rule less_le_trans[rotated]) simp
  have "round_magnitude (r * 5) \<le> round_magnitude (562949953477607 / 2 ^ 49 * 5)"
    using assms r by (intro round_magnitude_mono) simp_all
  then show "round_magnitude (r * 5) \<le> 2814749767388035 / 2 ^ 49"
    by (simp only: round_five_one_epsilon)
qed

lemma round_binary64_positive:
  assumes "0 < x" "0 < round_magnitude x" "round_magnitude x < 2 ^ 1024"
  shows "round_binary64 x = Num (round_magnitude x)"
  using assms by (simp add: round_binary64_def Let_def)

lemma literal_tenths [simp]:
  "literal (1 / 10) = Num (3602879701896397 / 2 ^ 55)"
  "literal (1 / 5) = Num (3602879701896397 / 2 ^ 54)"
  "literal (3 / 10) = Num (5404319552844595 / 2 ^ 54)"
  "literal (2 / 5) = Num (3602879701896397 / 2 ^ 53)"
  "literal (3 / 5) = Num (5404319552844595 / 2 ^ 53)"
  "literal (7 / 10) = Num (3152519739159347 / 2 ^ 52)"
  "literal (4 / 5) = Num (3602879701896397 / 2 ^ 52)"
  "literal (9 / 10) = Num (8106479329266893 / 2 ^ 53)"
  "literal (11 / 10) = Num (2476979795053773 / 2 ^ 51)"
  "literal (- (1 / 10)) = Num (- (3602879701896397 / 2 ^ 55))"
  by (simp_all add: literal_def rounding_eval)

section \<open>The Likert score in closed form\<close>

text \<open>
  On \<open>[0, 1]\<close> neither the sum nor the product leaves the positive normal range, so the
  score is \<open>likert_bucket\<close> of the value, for the source and for the specification alike.
\<close>

lemma clamp_of_int: "min (max (real_of_int c) 1) 5 = of_int (min 5 (max 1 c))"
  by (auto simp: max_def min_def)

lemma clamp_pair: "clamp (Num 1) (Num 5) (Num x) = Num (min (max x 1) 5)"
  by (simp add: clamp_def max_def min_def)

lemma raw_score:
  assumes "in_unit_interval v"
  shows "Math_ceil (Number_multiply (Number_add v (literal (1 / 10 ^ 10))) (literal 5)) =
         Num (of_int \<lceil>round_magnitude (round_magnitude (mv v + mv (literal (1 / 10 ^ 10))) * 5)\<rceil>)"
proof -
  define e :: real where "e = 7737125245533627 / 2 ^ 86"
  define r where "r = round_magnitude (mv v + e)"
  define p where "p = round_magnitude (r * 5)"
  have q: "0 \<le> mv v" "mv v \<le> 1" and fin: "is_finite v"
    using assms by (simp_all add: in_unit_interval_def)
  have e: "0 < e" by (simp add: e_def)
  have rb: "e \<le> r" "r \<le> 562949953477607 / 2 ^ 49"
    using epsilon_sum_bounds[OF q] by (simp_all add: r_def e_def)
  have pb: "4835703278458517 / 2 ^ 83 \<le> p" "p \<le> 2814749767388035 / 2 ^ 49"
    using product_bounds[of r] rb by (simp_all add: p_def e_def)
  have r0: "0 < r" using e rb(1) by linarith
  have p0: "0 < p" using pb(1) by (rule less_le_trans[rotated]) simp
  have rbig: "r < 2 ^ 1024" using rb(2) by (rule le_less_trans) simp
  have pbig: "p < 2 ^ 1024" using pb(2) by (rule le_less_trans) simp
  have add: "Number_add v (Num e) = Num r"
  proof -
    have "Number_add v (Num e) = round_binary64 (mv v + e)"
      using fin by (cases v) simp_all
    also have "\<dots> = Num r"
      unfolding r_def using q e r0 rbig by (intro round_binary64_positive) (simp_all add: r_def)
    finally show ?thesis .
  qed
  have mul: "Number_multiply (Num r) (Num 5) = Num p"
  proof -
    have "Number_multiply (Num r) (Num 5) = round_binary64 (r * 5)"
      using r0 by (simp add: Number_multiply_def)
    also have "\<dots> = Num p"
      unfolding p_def using r0 p0 pbig by (intro round_binary64_positive) (simp_all add: p_def)
    finally show ?thesis .
  qed
  have ceil: "Math_ceil (Num p) = Num (of_int \<lceil>p\<rceil>)" using p0 by simp
  have lit: "literal (1 / 10 ^ 10) = Num e" by (simp only: literal_epsilon e_def)
  show ?thesis
    unfolding lit literal_small mv.simps add mul ceil by (simp only: p_def r_def)
qed

lemma calculateLikertScore_closed:
  assumes "in_unit_interval v"
  shows "calculateLikertScore v = Inr (Num (of_int (likert_bucket (mv v))))"
proof -
  define c where "c = \<lceil>round_magnitude (round_magnitude (mv v + mv (literal (1 / 10 ^ 10))) * 5)\<rceil>"
  have "calculateLikertScore v = Inr (Math_min [Math_max [Num (of_int c), literal 1], literal 5])"
    unfolding calculateLikertScore_def Let_def raw_score[OF assms] c_def
    using assms by (simp only: trait_isInRange_iff not_True_eq_False if_False)
  also have "\<dots> = Inr (Num (min (max (of_int c) 1) 5))"
    by (simp only: literal_small Math_max_pair Math_min_pair)
  also have "\<dots> = Inr (Num (of_int (likert_bucket (mv v))))"
    by (simp only: clamp_of_int likert_bucket_def c_def)
  finally show ?thesis .
qed

lemma likert_spec_closed:
  assumes "in_unit_interval v"
  shows "likert_spec v = Inr (Num (of_int (likert_bucket (mv v))))"
proof -
  define c where "c = \<lceil>round_magnitude (round_magnitude (mv v + mv (literal (1 / 10 ^ 10))) * 5)\<rceil>"
  have "likert_spec v = Inr (clamp (literal 1) (literal 5) (Num (of_int c)))"
    unfolding likert_spec_def raw_score[OF assms] c_def
    using assms by (simp only: if_True)
  also have "\<dots> = Inr (Num (min (max (of_int c) 1) 5))"
    by (simp only: literal_small clamp_pair)
  also have "\<dots> = Inr (Num (of_int (likert_bucket (mv v))))"
    by (simp only: clamp_of_int likert_bucket_def c_def)
  finally show ?thesis .
qed

lemma likert_bucket_mono:
  assumes "0 \<le> a" "a \<le> b"
  shows "likert_bucket a \<le> likert_bucket b"
proof -
  define e :: real where "e = 7737125245533627 / 2 ^ 86"
  have e: "0 < e" by (simp add: e_def)
  have 1: "round_magnitude (a + e) \<le> round_magnitude (b + e)"
    using assms e by (intro round_magnitude_mono) simp_all
  have "round_magnitude e \<le> round_magnitude (a + e)"
    using assms e by (intro round_magnitude_mono) simp_all
  then have pos: "0 < round_magnitude (a + e)"
    using e by (simp add: round_epsilon[folded e_def])
  have "round_magnitude (round_magnitude (a + e) * 5) \<le> round_magnitude (round_magnitude (b + e) * 5)"
    using 1 pos by (intro round_magnitude_mono) simp_all
  then have "\<lceil>round_magnitude (round_magnitude (a + e) * 5)\<rceil>
               \<le> \<lceil>round_magnitude (round_magnitude (b + e) * 5)\<rceil>"
    by (rule ceiling_mono)
  then show ?thesis
    by (simp add: likert_bucket_def literal_epsilon_nf e_def)
qed

lemma likert_bucket_range: "1 \<le> likert_bucket q" "likert_bucket q \<le> 5"
  by (simp_all add: likert_bucket_def)

section \<open>Constructor, getters and setters\<close>

text \<open>The range check as an invariant of the objects a caller can reach.\<close>

lemmas setters =
  set_openness_def set_conscientiousness_def set_extraversion_def set_agreeableness_def
  set_neuroticism_def

lemmas getters =
  openness_def conscientiousness_def extraversion_def agreeableness_def neuroticism_def

lemma js_le_finite: "is_finite x \<Longrightarrow> is_finite y \<Longrightarrow> js_le x y \<longleftrightarrow> mv x \<le> mv y"
  by (cases x; cases y) (auto simp: js_le_def split: bool.splits)

lemma setter_cases:
  "setter t v this =
     (if \<not> in_unit_interval v
      then (Some (Error (trait_name t @ '' value must be between 0 and 1.0 inclusive.'')), this)
      else (None, (case t of
                     Openness \<Rightarrow> this\<lparr>f_openness := v\<rparr>
                   | Conscientiousness \<Rightarrow> this\<lparr>f_conscientiousness := v\<rparr>
                   | Extraversion \<Rightarrow> this\<lparr>f_extraversion := v\<rparr>
                   | Agreeableness \<Rightarrow> this\<lparr>f_agreeableness := v\<rparr>
                   | Neuroticism \<Rightarrow> this\<lparr>f_neuroticism := v\<rparr>)))"
  by (cases t)
     (simp_all add: set_openness_def set_conscientiousness_def set_extraversion_def
        set_agreeableness_def set_neuroticism_def trait_isInRange_iff)

lemma constructor_cases:
  "constructor o1 c1 e1 a1 n1 =
     (if in_unit_interval o1 \<and> in_unit_interval c1 \<and> in_unit_interval e1 \<and>
         in_unit_interval a1 \<and> in_unit_interval n1
      then Inr \<lparr>f_openness = o1, f_conscientiousness = c1, f_extraversion = e1,
                f_agreeableness = a1, f_neuroticism = n1\<rparr>
      else Inl (Error ''Personality trait values must be between 0 and 1.0 inclusive.''))"
  by (simp add: constructor_def trait_isInRange_iff)

lemma setter_keeps_range:
  assumes "\<And>t. in_unit_interval (getter t this)"
  shows "in_unit_interval (getter t' (snd (setter t v this)))"
  using assms[of Openness] assms[of Conscientiousness] assms[of Extraversion]
    assms[of Agreeableness] assms[of Neuroticism]
  by (cases t; cases t') (simp_all add: setters getters trait_isInRange_iff)

lemma reachable_in_unit_interval: "reachable this \<Longrightarrow> in_unit_interval (getter t this)"
proof (induction arbitrary: t rule: reachable.induct)
  case (constructed o1 c1 e1 a1 n1 this)
  then show ?case
    by (cases t) (auto simp: constructor_cases getters split: if_splits)
next
  case (average this)
  then show ?case
    by (cases t) (auto simp: createAveragePersonality_def constructor_cases getters split: if_splits)
next
  case (assigned this t' v)
  then show ?case by (intro setter_keeps_range)
qed

section \<open>Values of the conversions\<close>

text \<open>Scores and decimal renderings of the trait values that the tests use.\<close>

lemma likert_bucket_values:
  "likert_bucket 0 = 1"
  "likert_bucket (3602879701896397 / 2 ^ 55) = 1"
  "likert_bucket (3602879701896397 / 2 ^ 54) = 2"
  "likert_bucket (5404319552844595 / 2 ^ 54) = 2"
  "likert_bucket (3602879701896397 / 2 ^ 53) = 3"
  "likert_bucket (1 / 2) = 3"
  "likert_bucket (5404319552844595 / 2 ^ 53) = 4"
  "likert_bucket (3152519739159347 / 2 ^ 52) = 4"
  "likert_bucket (3602879701896397 / 2 ^ 52) = 5"
  "likert_bucket (8106479329266893 / 2 ^ 53) = 5"
  "likert_bucket 1 = 5"
  by (simp_all add: likert_bucket_def literal_epsilon_nf rounding_eval)

lemmas toString_eval =
  shortest.simps closest.simps decimal_candidates_def decimal_error_def format_decimal_def
  digits.simps digit_def rounding_eval

lemma Number_toString_values:
  "Number_toString (Num 1) = ''1''"
  "Number_toString (Num 2) = ''2''"
  "Number_toString (Num 3) = ''3''"
  "Number_toString (Num 4) = ''4''"
  "Number_toString (Num 5) = ''5''"
  by (simp_all add: toString_eval)

lemma Number_toString_tenths:
  "Number_toString (Num (3602879701896397 / 2 ^ 54)) = ''0.2''"
  "Number_toString (Num (3602879701896397 / 2 ^ 53)) = ''0.4''"
  "Number_toString (Num (5404319552844595 / 2 ^ 53)) = ''0.6''"
  "Number_toString (Num (3602879701896397 / 2 ^ 52)) = ''0.8''"
  "Number_toString (Num (5404319552844595 / 2 ^ 54)) = ''0.3''"
  by (simp_all add: toString_eval)

declare Number_toString.simps [simp del]

section \<open>\<^verbatim>\<open>describe\<close> and \<^verbatim>\<open>toString\<close> in general\<close>

text \<open>
  A score that \<^verbatim>\<open>calculateLikertScore\<close> returns is one of 1 to 5, so each round of the
  loop of \<^verbatim>\<open>describe\<close> takes one of its five branches.
\<close>

lemma score_in_range:
  assumes "calculateLikertScore v = Inr (Num (of_int s))"
  shows "in_unit_interval v" and "s = likert_bucket (mv v)"
proof -
  show r: "in_unit_interval v"
  proof (rule ccontr)
    assume "\<not> in_unit_interval v"
    then show False using assms by (simp add: calculateLikertScore_def trait_isInRange_iff)
  qed
  show "s = likert_bucket (mv v)"
    using assms calculateLikertScore_closed[OF r] by simp
qed

lemma bucket_cases: "likert_bucket q \<in> {1, 2, 3, 4, 5}"
  using likert_bucket_range[of q] by (simp add: insert_iff) presburger

lemma describe_step:
  assumes "calculateLikertScore v = Inr (Num (of_int s))"
  shows "describe_loop ((trait, v) # traits) d =
         describe_loop traits (d(trait \<mapsto> adverb s @ '' '' @ trait))"
proof -
  have "s \<in> {1, 2, 3, 4, 5}" using score_in_range(2)[OF assms] bucket_cases by simp
  then show ?thesis
    using assms by (auto simp: adverb_def Number_equal_def)
qed

lemma describe_general:
  assumes "calculateLikertScore (f_openness this) = Inr (Num (of_int so))"
    and "calculateLikertScore (f_conscientiousness this) = Inr (Num (of_int sc))"
    and "calculateLikertScore (f_extraversion this) = Inr (Num (of_int se))"
    and "calculateLikertScore (f_agreeableness this) = Inr (Num (of_int sa))"
    and "calculateLikertScore (f_neuroticism this) = Inr (Num (of_int sn))"
  shows "describe this =
     Inr (''According to the Five Factor Model this personality is: '' @
          adverb so @ '' open, '' @ adverb sc @ '' conscientious, '' @
          adverb se @ '' extraverted, '' @ adverb sa @ '' agreeable, and '' @
          adverb sn @ '' neurotic.'')"
  unfolding describe_def Let_def
  by (simp only: describe_step[OF assms(1)] describe_step[OF assms(2)] describe_step[OF assms(3)]
        describe_step[OF assms(4)] describe_step[OF assms(5)] describe_loop.simps(1))
     (simp add: property_def)

lemma digits_values:
  "digits 1 = ''1''" "digits 2 = ''2''" "digits 3 = ''3''" "digits 4 = ''4''" "digits 5 = ''5''"
  by (simp_all add: digits.simps digit_def)

lemma toString_general:
  assumes "calculateLikertScore (f_openness this) = Inr (Num (of_int so))"
    and "calculateLikertScore (f_conscientiousness this) = Inr (Num (of_int sc))"
    and "calculateLikertScore (f_extraversion this) = Inr (Num (of_int se))"
    and "calculateLikertScore (f_agreeableness this) = Inr (Num (of_int sa))"
    and "calculateLikertScore (f_neuroticism this) = Inr (Num (of_int sn))"
  shows "toString this =
     Inr (''FFM[Normalized:{O:'' @ Number_toString (f_openness this) @
          '', C:'' @ Number_toString (f_conscientiousness this) @
          '', E:'' @ Number_toString (f_extraversion this) @
          '', A:'' @ Number_toString (f_agreeableness this) @
          '', N:'' @ Number_toString (f_neuroticism this) @
          ''}, Likert:{O:'' @ digits so @ '', C:'' @ digits sc @ '', E:'' @ digits se @
          '', A:'' @ digits sa @ '', N:'' @ digits sn @ ''}]'')"
proof -
  have d: "Number_toString (Num (of_int s)) = digits s" if "calculateLikertScore v = Inr (Num (of_int s))" for s v
  proof -
    have "s \<in> {1, 2, 3, 4, 5}" using score_in_range(2)[OF that] bucket_cases by simp
    then show ?thesis
      by (auto simp: Number_toString_values digits_values)
  qed
  show ?thesis
    unfolding toString_def Let_def
    by (simp add: assms d[OF assms(1)] d[OF assms(2)] d[OF assms(3)] d[OF assms(4)] d[OF assms(5)])
qed

lemma score_values:
  "calculateLikertScore (literal 0) = Inr (Num 1)"
  "calculateLikertScore (literal (1 / 10)) = Inr (Num 1)"
  "calculateLikertScore (literal (2 / 10)) = Inr (Num 2)"
  "calculateLikertScore (literal (3 / 10)) = Inr (Num 2)"
  "calculateLikertScore (literal (4 / 10)) = Inr (Num 3)"
  "calculateLikertScore (literal (5 / 10)) = Inr (Num 3)"
  "calculateLikertScore (literal (6 / 10)) = Inr (Num 4)"
  "calculateLikertScore (literal (7 / 10)) = Inr (Num 4)"
  "calculateLikertScore (literal (8 / 10)) = Inr (Num 5)"
  "calculateLikertScore (literal (9 / 10)) = Inr (Num 5)"
  "calculateLikertScore (literal 1) = Inr (Num 5)"
  by (simp_all add: calculateLikertScore_closed in_unit_interval_def likert_bucket_values [simplified])

lemmas score_values_nf = score_values [simplified]

lemma Number_toString_more:
  "Number_toString (Num 0) = ''0''"
  "Number_toString (Num (1 / 2)) = ''0.5''"
  "Number_toString (Num (3602879701896397 / 2 ^ 55)) = ''0.1''"
  "Number_toString (Num (3152519739159347 / 2 ^ 52)) = ''0.7''"
  "Number_toString (Num (8106479329266893 / 2 ^ 53)) = ''0.9''"
  by (simp_all add: Number_toString.simps toString_eval)

lemmas Number_toString_nf =
  Number_toString_values Number_toString_tenths [simplified] Number_toString_more [simplified]

section \<open>The edges of the buckets\<close>

text \<open>
  The greatest Number with score 1 is \<^verbatim>\<open>0.1999999999\<close> and the greatest with score 4 is
  \<^verbatim>\<open>0.7999999999\<close>; the next Number above each has the next score, and no Number lies
  between two neighbours of the same grid.
\<close>

lemma ilog2_unique:
  assumes "2 powi k \<le> a" "a < 2 powi (k + 1)"
  shows "ilog 2 a = k"
proof -
  have a: "0 < a" using assms(1) by (rule less_le_trans[rotated]) simp
  note b = ilog2_bounds[OF a]
  have "\<not> ilog 2 a < k"
  proof
    assume "ilog 2 a < k"
    then have "ilog 2 a + 1 \<le> k" by simp
    then have "(2::real) powi (ilog 2 a + 1) \<le> 2 powi k" by (intro power_int_increasing) simp_all
    then show False using b assms(1) by linarith
  qed
  moreover have "\<not> k < ilog 2 a"
  proof
    assume "k < ilog 2 a"
    then have "k + 1 \<le> ilog 2 a" by simp
    then have "(2::real) powi (k + 1) \<le> 2 powi (ilog 2 a)" by (intro power_int_increasing) simp_all
    then show False using b assms(2) by linarith
  qed
  ultimately show ?thesis by simp
qed

lemma no_fixed_point_between:
  assumes "of_int m * 2 powi ulp_exponent q < q" "q < of_int (m + 1) * 2 powi ulp_exponent q"
  shows "round_magnitude q \<noteq> q"
proof
  define u :: real where "u = 2 powi ulp_exponent q"
  define k where "k = round_half_even (q / u)"
  have u: "0 < u" by (simp add: u_def)
  assume "round_magnitude q = q"
  then have q: "q = of_int k * u" by (simp add: round_magnitude_eq u_def k_def)
  have "of_int m * u < q" "q < of_int (m + 1) * u"
    using assms by (simp_all only: u_def)
  then have "of_int m * u < of_int k * u" "of_int k * u < of_int (m + 1) * u"
    by (simp_all only: q[symmetric])
  then have "real_of_int m < of_int k" "real_of_int k < of_int (m + 1)"
    using u by (simp_all only: mult_less_cancel_right_pos)
  then have "m < k" "k < m + 1" by (simp_all only: of_int_less_iff)
  then show False by linarith
qed

lemma not_binary64_between:
  assumes "(2::real) powi k \<le> of_int m * 2 powi (k - 52)"
    and "of_int (m + 1) * 2 powi (k - 52) \<le> (2::real) powi (k + 1)"
    and "- 1022 \<le> k"
    and "of_int m * 2 powi (k - 52) < q" "q < of_int (m + 1) * 2 powi (k - 52)"
  shows "\<not> is_binary64 (Num q)"
proof -
  have "2 powi k \<le> q" "q < 2 powi (k + 1)" using assms by linarith+
  then have "ilog 2 q = k" by (rule ilog2_unique)
  then have ue: "ulp_exponent q = k - 52" using assms(3) by (simp add: ulp_exponent_def)
  have q: "0 < q" using \<open>2 powi k \<le> q\<close> by (rule less_le_trans[rotated]) simp
  have "round_magnitude q \<noteq> q"
    using assms(4,5) by (intro no_fixed_point_between[of m]) (simp_all only: ue)
  then show ?thesis
    using q by (auto simp: is_binary64_def round_binary64_def Let_def split: if_splits)
qed

lemma edge_values:
  "literal (1999999999 / 10 ^ 10) = Num (3602879700094957 / 2 ^ 54)"
  "literal (7999999999 / 10 ^ 10) = Num (3602879701446037 / 2 ^ 52)"
  by (simp_all add: literal_def rounding_eval)

lemma likert_bucket_edges:
  "likert_bucket (7205759400189914 / 2 ^ 55) = 1"
  "likert_bucket (7205759400189915 / 2 ^ 55) = 2"
  "likert_bucket (7205759402892074 / 2 ^ 53) = 4"
  "likert_bucket (7205759402892075 / 2 ^ 53) = 5"
  by (simp_all add: likert_bucket_def literal_epsilon_nf rounding_eval)

lemma above_edge_1:
  assumes "is_binary64 (Num q)" "7205759400189914 / 2 ^ 55 < q"
  shows "7205759400189915 / 2 ^ 55 \<le> q"
proof (rule ccontr)
  assume "\<not> 7205759400189915 / 2 ^ 55 \<le> q"
  then have lt: "q < 7205759400189915 / 2 ^ 55" by simp
  have "\<not> is_binary64 (Num q)"
    using assms(2) lt
    by (intro not_binary64_between[of "- 3" 7205759400189914]) (simp_all add: power_int_minus)
  then show False using assms(1) by simp
qed

lemma above_edge_5:
  assumes "is_binary64 (Num q)" "7205759402892074 / 2 ^ 53 < q"
  shows "7205759402892075 / 2 ^ 53 \<le> q"
proof (rule ccontr)
  assume "\<not> 7205759402892075 / 2 ^ 53 \<le> q"
  then have lt: "q < 7205759402892075 / 2 ^ 53" by simp
  have "\<not> is_binary64 (Num q)"
    using assms(2) lt
    by (intro not_binary64_between[of "- 1" 7205759402892074]) (simp_all add: power_int_minus)
  then show False using assms(1) by simp
qed

section \<open>The claims\<close>

subsection \<open>C1\<close>

text \<open>
  Claim C1 gives the fencepost \<open>0.2\<close> the score 1.  The epsilon lifts a value on a
  bucket edge into the next bucket, so the source gives \<open>0.2\<close> the score 2, as its tests
  of \<^verbatim>\<open>toJSON\<close> and \<^verbatim>\<open>toString\<close> expect.
\<close>

theorem fencepost_counterexample:
  "calculateLikertScore (literal (2 / 10)) = Inr (literal 2) \<and>
   calculateLikertScore (literal (2 / 10)) \<noteq> Inr (literal 1)"
  by (simp add: score_values_nf)

text \<open>
  Claim C1 at the edges the source has: the six fenceposts \<open>0.0\<close>, \<open>0.2\<close>, \<open>0.4\<close>,
  \<open>0.6\<close>, \<open>0.8\<close>, \<open>1.0\<close> have the scores 1, 2, 3, 4, 5, 5; bucket 1 contains every value
  of \<open>[0, 1]\<close> up to and including \<^verbatim>\<open>0.1999999999\<close> and no Number above it; bucket 5
  lies above \<^verbatim>\<open>0.7999999999\<close> and contains every Number of \<open>[0, 1]\<close> above it, so
  it is exactly the half-open interval from \<^verbatim>\<open>0.7999999999\<close> to \<open>1.0\<close>.
\<close>

theorem likert_fenceposts:
  "calculateLikertScore (literal 0) = Inr (literal 1) \<and>
   calculateLikertScore (literal (2 / 10)) = Inr (literal 2) \<and>
   calculateLikertScore (literal (4 / 10)) = Inr (literal 3) \<and>
   calculateLikertScore (literal (6 / 10)) = Inr (literal 4) \<and>
   calculateLikertScore (literal (8 / 10)) = Inr (literal 5) \<and>
   calculateLikertScore (literal 1) = Inr (literal 5) \<and>
   (in_unit_interval v \<and> mv v \<le> mv (literal (1999999999 / 10 ^ 10)) \<longrightarrow>
      calculateLikertScore v = Inr (literal 1)) \<and>
   (in_unit_interval v \<and> is_binary64 v \<and> calculateLikertScore v = Inr (literal 1) \<longrightarrow>
      mv v \<le> mv (literal (1999999999 / 10 ^ 10))) \<and>
   (in_unit_interval v \<and> calculateLikertScore v = Inr (literal 5) \<longrightarrow>
      mv (literal (7999999999 / 10 ^ 10)) < mv v) \<and>
   (in_unit_interval v \<and> is_binary64 v \<and> mv (literal (7999999999 / 10 ^ 10)) < mv v \<longrightarrow>
      calculateLikertScore v = Inr (literal 5))"
proof -
  have e1: "mv (literal (1999999999 / 10 ^ 10)) = 7205759400189914 / 2 ^ 55"
    and e5: "mv (literal (7999999999 / 10 ^ 10)) = 7205759402892074 / 2 ^ 53"
    by (simp_all add: edge_values [simplified])
  have num: "v = Num (mv v)" if "is_finite v" "0 < mv v"
    using that by (cases v) simp_all
  have fin: "is_finite v" "0 \<le> mv v" if "in_unit_interval v"
    using that by (simp_all add: in_unit_interval_def)
  have b1: "calculateLikertScore v = Inr (literal 1)"
    if r: "in_unit_interval v" and s: "mv v \<le> mv (literal (1999999999 / 10 ^ 10))"
  proof -
    have "likert_bucket (mv v) \<le> likert_bucket (7205759400189914 / 2 ^ 55)"
      using s fin(2)[OF r] by (intro likert_bucket_mono) (simp_all only: e1)
    then have "likert_bucket (mv v) \<le> 1" by (simp only: likert_bucket_edges)
    then have "likert_bucket (mv v) = 1" using likert_bucket_range(1)[of "mv v"] by simp
    then show ?thesis using calculateLikertScore_closed[OF r] by simp
  qed
  have b2: "mv v \<le> mv (literal (1999999999 / 10 ^ 10))"
    if r: "in_unit_interval v" and n: "is_binary64 v"
      and s: "calculateLikertScore v = Inr (literal 1)"
  proof (rule ccontr)
    assume "\<not> mv v \<le> mv (literal (1999999999 / 10 ^ 10))"
    then have gt: "7205759400189914 / 2 ^ 55 < mv v" by (simp only: e1 not_le)
    then have "0 < mv v" by (rule less_trans[rotated]) simp
    then have "is_binary64 (Num (mv v))" using n num[OF fin(1)[OF r]] by simp
    then have "7205759400189915 / 2 ^ 55 \<le> mv v" using gt by (rule above_edge_1)
    then have "likert_bucket (7205759400189915 / 2 ^ 55) \<le> likert_bucket (mv v)"
      by (intro likert_bucket_mono) simp_all
    then have "2 \<le> likert_bucket (mv v)" by (simp only: likert_bucket_edges)
    moreover have "likert_bucket (mv v) = 1"
      using s calculateLikertScore_closed[OF r] by simp
    ultimately show False by simp
  qed
  have b3: "mv (literal (7999999999 / 10 ^ 10)) < mv v"
    if r: "in_unit_interval v" and s: "calculateLikertScore v = Inr (literal 5)"
  proof (rule ccontr)
    assume "\<not> mv (literal (7999999999 / 10 ^ 10)) < mv v"
    then have "mv v \<le> 7205759402892074 / 2 ^ 53" by (simp only: e5 not_less)
    then have "likert_bucket (mv v) \<le> likert_bucket (7205759402892074 / 2 ^ 53)"
      using fin(2)[OF r] by (intro likert_bucket_mono)
    then have "likert_bucket (mv v) \<le> 4" by (simp only: likert_bucket_edges)
    moreover have "likert_bucket (mv v) = 5"
      using s calculateLikertScore_closed[OF r] by simp
    ultimately show False by simp
  qed
  have b4: "calculateLikertScore v = Inr (literal 5)"
    if r: "in_unit_interval v" and n: "is_binary64 v"
      and s: "mv (literal (7999999999 / 10 ^ 10)) < mv v"
  proof -
    have gt: "7205759402892074 / 2 ^ 53 < mv v" using s by (simp only: e5)
    then have "0 < mv v" by (rule less_trans[rotated]) simp
    then have "is_binary64 (Num (mv v))" using n num[OF fin(1)[OF r]] by simp
    then have "7205759402892075 / 2 ^ 53 \<le> mv v" using gt by (rule above_edge_5)
    then have "likert_bucket (7205759402892075 / 2 ^ 53) \<le> likert_bucket (mv v)"
      by (intro likert_bucket_mono) simp_all
    then have "5 \<le> likert_bucket (mv v)" by (simp only: likert_bucket_edges)
    then have "likert_bucket (mv v) = 5" using likert_bucket_range(2)[of "mv v"] by simp
    then show ?thesis using calculateLikertScore_closed[OF r] by simp
  qed
  have six:
    "calculateLikertScore (literal 0) = Inr (literal 1) \<and>
     calculateLikertScore (literal (2 / 10)) = Inr (literal 2) \<and>
     calculateLikertScore (literal (4 / 10)) = Inr (literal 3) \<and>
     calculateLikertScore (literal (6 / 10)) = Inr (literal 4) \<and>
     calculateLikertScore (literal (8 / 10)) = Inr (literal 5) \<and>
     calculateLikertScore (literal 1) = Inr (literal 5)"
    by (simp add: score_values_nf)
  show ?thesis using six b1 b2 b3 b4 by blast
qed

text \<open>
  The bucket statements of C1 at \<open>0.1\<close>, which has score 1, at \<open>0.9\<close>, which has score 5,
  and at \<open>0.7\<close>, which has not.
\<close>

theorem likert_fenceposts_witness:
  "in_unit_interval (literal (1 / 10)) \<and> is_binary64 (literal (1 / 10)) \<and>
   mv (literal (1 / 10)) \<le> mv (literal (1999999999 / 10 ^ 10)) \<and>
   calculateLikertScore (literal (1 / 10)) = Inr (literal 1) \<and>
   in_unit_interval (literal (9 / 10)) \<and> is_binary64 (literal (9 / 10)) \<and>
   mv (literal (7999999999 / 10 ^ 10)) < mv (literal (9 / 10)) \<and>
   calculateLikertScore (literal (9 / 10)) = Inr (literal 5) \<and>
   in_unit_interval (literal (7 / 10)) \<and>
   calculateLikertScore (literal (7 / 10)) \<noteq> Inr (literal 5)"
proof -
  have n: "is_binary64 (literal (1 / 10))" "is_binary64 (literal (9 / 10))"
    by (simp_all add: is_binary64_def rounding_eval)
  have r: "in_unit_interval (literal (1 / 10))" "in_unit_interval (literal (9 / 10))"
    "in_unit_interval (literal (7 / 10))"
    by (simp_all add: in_unit_interval_def)
  have c: "mv (literal (1 / 10)) \<le> mv (literal (1999999999 / 10 ^ 10))"
    "mv (literal (7999999999 / 10 ^ 10)) < mv (literal (9 / 10))"
    "\<not> mv (literal (7999999999 / 10 ^ 10)) < mv (literal (7 / 10))"
    by (simp_all add: edge_values [simplified])
  show ?thesis
    using n r c likert_fenceposts [of "literal (1 / 10)"] likert_fenceposts [of "literal (9 / 10)"]
      likert_fenceposts [of "literal (7 / 10)"]
    by blast
qed

subsection \<open>C2\<close>

text \<open>
  Claim C2: every field of an object made by the constructor or by
  \<^verbatim>\<open>createAveragePersonality\<close> and changed by setter calls only, accepted or rejected,
  is a finite Number between 0 and 1, also under the comparison of the language.
\<close>

theorem fields_always_in_range:
  "reachable this \<Longrightarrow>
   is_finite (getter t this) \<and> 0 \<le> mv (getter t this) \<and> mv (getter t this) \<le> 1 \<and>
   js_le (literal 0) (getter t this) \<and> js_le (getter t this) (literal 1)"
proof -
  assume "reachable this"
  then have r: "in_unit_interval (getter t this)" by (rule reachable_in_unit_interval)
  then have "trait_isInRange (getter t this)" by (simp only: trait_isInRange_iff)
  then have "js_le (literal 0) (getter t this) \<and> js_le (getter t this) (literal 1)"
    using r by (simp add: in_unit_interval_def js_le_finite)
  with r show ?thesis by (simp add: in_unit_interval_def)
qed

text \<open>
  C2 on the object of the tests after \<^verbatim>\<open>openness = 0.3\<close> (accepted) and
  \<^verbatim>\<open>openness = -0.1\<close> (rejected).
\<close>

theorem fields_always_in_range_witness:
  "reachable \<lparr>f_openness = literal (3 / 10), f_conscientiousness = literal (2 / 10),
              f_extraversion = literal (3 / 10), f_agreeableness = literal (4 / 10),
              f_neuroticism = literal (5 / 10)\<rparr> \<and>
   is_finite (literal (3 / 10)) \<and> 0 \<le> mv (literal (3 / 10)) \<and> mv (literal (3 / 10)) \<le> 1 \<and>
   js_le (literal 0) (literal (3 / 10)) \<and> js_le (literal (3 / 10)) (literal 1)"
proof -
  let ?a = "\<lparr>f_openness = literal (1 / 10), f_conscientiousness = literal (2 / 10),
              f_extraversion = literal (3 / 10), f_agreeableness = literal (4 / 10),
              f_neuroticism = literal (5 / 10)\<rparr>"
  let ?b = "\<lparr>f_openness = literal (3 / 10), f_conscientiousness = literal (2 / 10),
              f_extraversion = literal (3 / 10), f_agreeableness = literal (4 / 10),
              f_neuroticism = literal (5 / 10)\<rparr>"
  have "constructor (literal (1 / 10)) (literal (2 / 10)) (literal (3 / 10)) (literal (4 / 10))
          (literal (5 / 10)) = Inr ?a"
    by (simp add: constructor_cases in_unit_interval_def)
  then have a: "reachable ?a" by (rule reachable.constructed)
  have "snd (setter Openness (literal (3 / 10)) ?a) = ?b"
    by (simp add: setters trait_isInRange_iff in_unit_interval_def)
  then have b: "reachable ?b" using reachable.assigned[OF a, of Openness "literal (3 / 10)"] by simp
  have "snd (setter Openness (literal (- (1 / 10))) ?b) = ?b"
    by (simp add: setters trait_isInRange_iff in_unit_interval_def)
  then have c: "reachable ?b"
    using reachable.assigned[OF b, of Openness "literal (- (1 / 10))"] by simp
  show ?thesis
    using fields_always_in_range [OF c, of Openness] c by (simp add: getters)
qed

subsection \<open>C3\<close>

text \<open>
  Claim C3: \<^verbatim>\<open>calculateLikertScore\<close> is the conversion of the specification: inside
  \<open>[0, 1]\<close> the clamp into \<open>[1, 5]\<close> of the ceiling of \<open>(v + 1e-10) * 5\<close>, computed in this
  order in binary64 arithmetic, and outside \<open>[0, 1]\<close> the range violation.
\<close>

theorem calculateLikertScore_refines_spec: "calculateLikertScore v = likert_spec v"
proof (cases "in_unit_interval v")
  case True
  then show ?thesis by (simp only: calculateLikertScore_closed likert_spec_closed)
next
  case False
  then show ?thesis by (simp add: calculateLikertScore_def likert_spec_def trait_isInRange_iff)
qed

text \<open>
  C3 at \<open>0.4\<close>, where both give 3, and at \<open>1.1\<close>, where both fail.
\<close>

theorem calculateLikertScore_refines_spec_witness:
  "calculateLikertScore (literal (4 / 10)) = likert_spec (literal (4 / 10)) \<and>
   likert_spec (literal (4 / 10)) = Inr (literal 3) \<and>
   calculateLikertScore (literal (11 / 10)) = likert_spec (literal (11 / 10)) \<and>
   likert_spec (literal (11 / 10)) =
     Inl (Error ''Personality trait values must be between 0 and 1.0 inclusive.'')"
  using calculateLikertScore_refines_spec [of "literal (4 / 10)"]
    calculateLikertScore_refines_spec [of "literal (11 / 10)"]
  by (simp add: score_values_nf likert_spec_def in_unit_interval_def)

subsection \<open>C4\<close>

text \<open>
  Claim C4: the constructor fails with the generic error when one of the five values
  is outside \<open>[0, 1]\<close>, and otherwise makes an object whose getters return the five
  values as they were given.
\<close>

theorem constructor_validates:
  "(\<not> in_unit_interval o1 \<or> \<not> in_unit_interval c1 \<or> \<not> in_unit_interval e1 \<or>
    \<not> in_unit_interval a1 \<or> \<not> in_unit_interval n1 \<longrightarrow>
      constructor o1 c1 e1 a1 n1 =
        Inl (Error ''Personality trait values must be between 0 and 1.0 inclusive.'')) \<and>
   (in_unit_interval o1 \<and> in_unit_interval c1 \<and> in_unit_interval e1 \<and>
    in_unit_interval a1 \<and> in_unit_interval n1 \<longrightarrow>
      (\<exists>this. constructor o1 c1 e1 a1 n1 = Inr this \<and>
         openness this = o1 \<and> conscientiousness this = c1 \<and> extraversion this = e1 \<and>
         agreeableness this = a1 \<and> neuroticism this = n1))"
  by (auto simp: constructor_cases getters)

text \<open>
  C4 on the two constructions of the tests: \<^verbatim>\<open>new FFM(0.2, 1.1, 0.4, 0.5, 0.6)\<close> fails,
  \<^verbatim>\<open>new FFM(0.2, 0.3, 0.4, 0.5, 0.6)\<close> stores its arguments.
\<close>

theorem constructor_validates_witness:
  "\<not> in_unit_interval (literal (11 / 10)) \<and>
   constructor (literal (2 / 10)) (literal (11 / 10)) (literal (4 / 10)) (literal (5 / 10))
     (literal (6 / 10)) =
     Inl (Error ''Personality trait values must be between 0 and 1.0 inclusive.'') \<and>
   (\<exists>this. constructor (literal (2 / 10)) (literal (3 / 10)) (literal (4 / 10)) (literal (5 / 10))
            (literal (6 / 10)) = Inr this \<and>
      openness this = literal (2 / 10) \<and> conscientiousness this = literal (3 / 10) \<and>
      extraversion this = literal (4 / 10) \<and> agreeableness this = literal (5 / 10) \<and>
      neuroticism this = literal (6 / 10))"
  using constructor_validates [of "literal (2 / 10)" "literal (11 / 10)" "literal (4 / 10)"
      "literal (5 / 10)" "literal (6 / 10)"]
    constructor_validates [of "literal (2 / 10)" "literal (3 / 10)" "literal (4 / 10)"
      "literal (5 / 10)" "literal (6 / 10)"]
  by (simp add: in_unit_interval_def)

subsection \<open>C5\<close>

text \<open>
  Claim C5: a setter given a value outside \<open>[0, 1]\<close> throws the error whose message
  starts with the name of its trait, and leaves the object as it was.
\<close>

theorem setter_rejects_out_of_range:
  "\<not> in_unit_interval v \<Longrightarrow>
   setter t v this =
     (Some (Error (trait_name t @ '' value must be between 0 and 1.0 inclusive.'')), this)"
  by (simp add: setter_cases)

text \<open>
  C5 for \<^verbatim>\<open>openness = -0.1\<close> on the object of the tests.
\<close>

theorem setter_rejects_out_of_range_witness:
  "\<not> in_unit_interval (literal (- (1 / 10))) \<and>
   setter Openness (literal (- (1 / 10)))
     \<lparr>f_openness = literal (1 / 10), f_conscientiousness = literal (2 / 10),
        f_extraversion = literal (3 / 10), f_agreeableness = literal (4 / 10),
        f_neuroticism = literal (5 / 10)\<rparr> =
     (Some (Error ''Openness value must be between 0 and 1.0 inclusive.''),
      \<lparr>f_openness = literal (1 / 10), f_conscientiousness = literal (2 / 10),
         f_extraversion = literal (3 / 10), f_agreeableness = literal (4 / 10),
         f_neuroticism = literal (5 / 10)\<rparr>)"
proof -
  have n: "\<not> in_unit_interval (literal (- (1 / 10)))" by (simp add: in_unit_interval_def)
  show ?thesis
    using n setter_rejects_out_of_range [OF n, of Openness] by simp
qed

subsection \<open>C6\<close>

text \<open>
  Claim C6: \<^verbatim>\<open>describe\<close> writes, in the fixed order of the traits, the adverb of each
  trait's Likert score (1 not, 2 slightly, 3 somewhat, 4 moderately, 5 strongly); for the
  profile \<open>(0.8, 0.4, 0.6, 0.9, 0.2)\<close> it returns the sentence of the specification.
\<close>

theorem describe_maps_scores_to_adverbs:
  "(calculateLikertScore (f_openness this) = Inr (Num (of_int so)) \<and>
    calculateLikertScore (f_conscientiousness this) = Inr (Num (of_int sc)) \<and>
    calculateLikertScore (f_extraversion this) = Inr (Num (of_int se)) \<and>
    calculateLikertScore (f_agreeableness this) = Inr (Num (of_int sa)) \<and>
    calculateLikertScore (f_neuroticism this) = Inr (Num (of_int sn)) \<longrightarrow>
    describe this =
      Inr (''According to the Five Factor Model this personality is: '' @
           adverb so @ '' open, '' @ adverb sc @ '' conscientious, '' @
           adverb se @ '' extraverted, '' @ adverb sa @ '' agreeable, and '' @
           adverb sn @ '' neurotic.'')) \<and>
   adverb 1 = ''not'' \<and> adverb 2 = ''slightly'' \<and> adverb 3 = ''somewhat'' \<and>
   adverb 4 = ''moderately'' \<and> adverb 5 = ''strongly'' \<and>
   describe \<lparr>f_openness = literal (8 / 10), f_conscientiousness = literal (4 / 10),
             f_extraversion = literal (6 / 10), f_agreeableness = literal (9 / 10),
             f_neuroticism = literal (2 / 10)\<rparr> =
     Inr ''According to the Five Factor Model this personality is: strongly open, somewhat conscientious, moderately extraverted, strongly agreeable, and slightly neurotic.''"
proof -
  have "describe \<lparr>f_openness = literal (8 / 10), f_conscientiousness = literal (4 / 10),
             f_extraversion = literal (6 / 10), f_agreeableness = literal (9 / 10),
             f_neuroticism = literal (2 / 10)\<rparr> =
     Inr ''According to the Five Factor Model this personality is: strongly open, somewhat conscientious, moderately extraverted, strongly agreeable, and slightly neurotic.''"
    using describe_general [of "\<lparr>f_openness = literal (8 / 10), f_conscientiousness = literal (4 / 10),
             f_extraversion = literal (6 / 10), f_agreeableness = literal (9 / 10),
             f_neuroticism = literal (2 / 10)\<rparr>" 5 3 4 5 2]
    by (simp add: score_values_nf adverb_def)
  then show ?thesis
    using describe_general [of this so sc se sa sn] by (simp add: adverb_def)
qed

text \<open>
  C6 on the profile \<open>(0.1, 0.2, 0.3, 0.4, 1.0)\<close> with its scores 1, 2, 2, 3, 5.
\<close>

theorem describe_maps_scores_to_adverbs_witness:
  "calculateLikertScore (literal (1 / 10)) = Inr (Num (of_int 1)) \<and>
   calculateLikertScore (literal (2 / 10)) = Inr (Num (of_int 2)) \<and>
   calculateLikertScore (literal (3 / 10)) = Inr (Num (of_int 2)) \<and>
   calculateLikertScore (literal (4 / 10)) = Inr (Num (of_int 3)) \<and>
   calculateLikertScore (literal 1) = Inr (Num (of_int 5)) \<and>
   describe \<lparr>f_openness = literal (1 / 10), f_conscientiousness = literal (2 / 10),
             f_extraversion = literal (3 / 10), f_agreeableness = literal (4 / 10),
             f_neuroticism = literal 1\<rparr> =
     Inr ''According to the Five Factor Model this personality is: not open, slightly conscientious, slightly extraverted, somewhat agreeable, and strongly neurotic.''"
  using describe_maps_scores_to_adverbs [of "\<lparr>f_openness = literal (1 / 10),
      f_conscientiousness = literal (2 / 10), f_extraversion = literal (3 / 10),
      f_agreeableness = literal (4 / 10), f_neuroticism = literal 1\<rparr>" 1 2 2 3 5]
  by (simp add: score_values_nf)

subsection \<open>C7\<close>

text \<open>
  Claim C7: \<^verbatim>\<open>toString\<close> writes the five values as \<open>Number::toString\<close> renders them
  (the shortest decimal, so \<open>1.0\<close> is \<open>1\<close> and \<open>0.30\<close> is \<open>0.3\<close>) and then the five Likert
  scores as integers, both in the order O, C, E, A, N; for the profile
  \<open>(0.2, 0.4, 0.6, 0.8, 1.0)\<close> it returns the string of the specification.
\<close>

theorem toString_renders_values_and_scores:
  "(calculateLikertScore (f_openness this) = Inr (Num (of_int so)) \<and>
    calculateLikertScore (f_conscientiousness this) = Inr (Num (of_int sc)) \<and>
    calculateLikertScore (f_extraversion this) = Inr (Num (of_int se)) \<and>
    calculateLikertScore (f_agreeableness this) = Inr (Num (of_int sa)) \<and>
    calculateLikertScore (f_neuroticism this) = Inr (Num (of_int sn)) \<longrightarrow>
    toString this =
      Inr (''FFM[Normalized:{O:'' @ Number_toString (f_openness this) @
           '', C:'' @ Number_toString (f_conscientiousness this) @
           '', E:'' @ Number_toString (f_extraversion this) @
           '', A:'' @ Number_toString (f_agreeableness this) @
           '', N:'' @ Number_toString (f_neuroticism this) @
           ''}, Likert:{O:'' @ digits so @ '', C:'' @ digits sc @ '', E:'' @ digits se @
           '', A:'' @ digits sa @ '', N:'' @ digits sn @ ''}]'')) \<and>
   Number_toString (literal 1) = ''1'' \<and> Number_toString (literal (30 / 100)) = ''0.3'' \<and>
   toString \<lparr>f_openness = literal (2 / 10), f_conscientiousness = literal (4 / 10),
              f_extraversion = literal (6 / 10), f_agreeableness = literal (8 / 10),
              f_neuroticism = literal 1\<rparr> =
     Inr ''FFM[Normalized:{O:0.2, C:0.4, E:0.6, A:0.8, N:1}, Likert:{O:2, C:3, E:4, A:5, N:5}]''"
proof -
  have "toString \<lparr>f_openness = literal (2 / 10), f_conscientiousness = literal (4 / 10),
              f_extraversion = literal (6 / 10), f_agreeableness = literal (8 / 10),
              f_neuroticism = literal 1\<rparr> =
     Inr ''FFM[Normalized:{O:0.2, C:0.4, E:0.6, A:0.8, N:1}, Likert:{O:2, C:3, E:4, A:5, N:5}]''"
    using toString_general [of "\<lparr>f_openness = literal (2 / 10), f_conscientiousness = literal (4 / 10),
              f_extraversion = literal (6 / 10), f_agreeableness = literal (8 / 10),
              f_neuroticism = literal 1\<rparr>" 2 3 4 5 5]
    by (simp add: score_values_nf Number_toString_nf digits_values)
  then show ?thesis
    using toString_general [of this so sc se sa sn] by (simp add: Number_toString_nf)
qed

text \<open>
  C7 on the profile \<open>(0.0, 0.3, 0.5, 0.7, 0.9)\<close> with its scores 1, 2, 3, 4, 5.
\<close>

theorem toString_renders_values_and_scores_witness:
  "calculateLikertScore (literal 0) = Inr (Num (of_int 1)) \<and>
   calculateLikertScore (literal (3 / 10)) = Inr (Num (of_int 2)) \<and>
   calculateLikertScore (literal (5 / 10)) = Inr (Num (of_int 3)) \<and>
   calculateLikertScore (literal (7 / 10)) = Inr (Num (of_int 4)) \<and>
   calculateLikertScore (literal (9 / 10)) = Inr (Num (of_int 5)) \<and>
   toString \<lparr>f_openness = literal 0, f_conscientiousness = literal (3 / 10),
              f_extraversion = literal (5 / 10), f_agreeableness = literal (7 / 10),
              f_neuroticism = literal (9 / 10)\<rparr> =
     Inr ''FFM[Normalized:{O:0, C:0.3, E:0.5, A:0.7, N:0.9}, Likert:{O:1, C:2, E:3, A:4, N:5}]''"
  using toString_renders_values_and_scores [of "\<lparr>f_openness = literal 0,
      f_conscientiousness = literal (3 / 10), f_extraversion = literal (5 / 10),
      f_agreeableness = literal (7 / 10), f_neuroticism = literal (9 / 10)\<rparr>" 1 2 3 4 5]
  by (simp add: score_values_nf Number_toString_nf digits_values)

subsection \<open>C8\<close>

text \<open>
  Claim C8: \<^verbatim>\<open>calculateLikertScore\<close> is monotone on \<open>[0, 1]\<close>: for \<open>u \<le> v\<close> both in
  range it returns a score for each, and the score of \<open>u\<close> is at most the score of \<open>v\<close>.
\<close>

theorem calculateLikertScore_monotone:
  "trait_isInRange u \<Longrightarrow> trait_isInRange v \<Longrightarrow> js_le u v \<Longrightarrow>
   \<exists>a b. calculateLikertScore u = Inr a \<and> calculateLikertScore v = Inr b \<and> js_le a b"
proof -
  assume u: "trait_isInRange u" and v: "trait_isInRange v" and le: "js_le u v"
  have iu: "in_unit_interval u" and iv: "in_unit_interval v"
    using u v by (simp_all only: trait_isInRange_iff)
  have "mv u \<le> mv v"
    using le iu iv by (simp add: in_unit_interval_def js_le_finite)
  moreover have "0 \<le> mv u" using iu by (simp add: in_unit_interval_def)
  ultimately have "likert_bucket (mv u) \<le> likert_bucket (mv v)" by (intro likert_bucket_mono)
  then have "js_le (Num (of_int (likert_bucket (mv u)))) (Num (of_int (likert_bucket (mv v))))"
    by (simp add: js_le_finite)
  then show ?thesis
    using calculateLikertScore_closed[OF iu] calculateLikertScore_closed[OF iv] by blast
qed

text \<open>
  C8 at \<open>u = 0.2\<close> and \<open>v = 0.4\<close>.
\<close>

theorem calculateLikertScore_monotone_witness:
  "trait_isInRange (literal (2 / 10)) \<and> trait_isInRange (literal (4 / 10)) \<and>
   js_le (literal (2 / 10)) (literal (4 / 10)) \<and>
   (\<exists>a b. calculateLikertScore (literal (2 / 10)) = Inr a \<and>
          calculateLikertScore (literal (4 / 10)) = Inr b \<and> js_le a b)"
proof -
  have 1: "trait_isInRange (literal (2 / 10))" and 2: "trait_isInRange (literal (4 / 10))"
    by (simp_all add: trait_isInRange_iff in_unit_interval_def)
  have 3: "js_le (literal (2 / 10)) (literal (4 / 10))" by (simp add: js_le_finite)
  show ?thesis using 1 2 3 calculateLikertScore_monotone [OF 1 2 3] by blast
qed

subsection \<open>C9\<close>

text \<open>
  Claim C9: \<open>NaN\<close> fails the range check; the constructor with \<open>NaN\<close> among its
  arguments, every setter and \<^verbatim>\<open>calculateLikertScore\<close> reject it with their
  range error, and no field of a reachable object is \<open>NaN\<close>.
\<close>

theorem NaN_is_rejected:
  "\<not> trait_isInRange NaN \<and>
   (NaN \<in> {o1, c1, e1, a1, n1} \<longrightarrow>
      constructor o1 c1 e1 a1 n1 =
        Inl (Error ''Personality trait values must be between 0 and 1.0 inclusive.'')) \<and>
   setter t NaN this =
     (Some (Error (trait_name t @ '' value must be between 0 and 1.0 inclusive.'')), this) \<and>
   calculateLikertScore NaN =
     Inl (Error ''Personality trait values must be between 0 and 1.0 inclusive.'') \<and>
   (reachable that \<longrightarrow> getter t' that \<noteq> NaN)"
proof -
  have n: "\<not> in_unit_interval NaN" by (simp add: in_unit_interval_def)
  have "reachable that \<Longrightarrow> getter t' that \<noteq> NaN"
    using reachable_in_unit_interval[of that t'] n by auto
  then show ?thesis
    using n by (auto simp: trait_isInRange_iff constructor_cases setter_cases calculateLikertScore_def)
qed

text \<open>
  C9 for a constructor call with \<open>NaN\<close> as its third argument, and for the
  object of the tests.
\<close>

theorem NaN_is_rejected_witness:
  "NaN \<in> {literal (2 / 10), literal (3 / 10), NaN, literal (5 / 10), literal (6 / 10)} \<and>
   constructor (literal (2 / 10)) (literal (3 / 10)) NaN (literal (5 / 10)) (literal (6 / 10)) =
     Inl (Error ''Personality trait values must be between 0 and 1.0 inclusive.'') \<and>
   reachable \<lparr>f_openness = literal (1 / 10), f_conscientiousness = literal (2 / 10),
              f_extraversion = literal (3 / 10), f_agreeableness = literal (4 / 10),
              f_neuroticism = literal (5 / 10)\<rparr> \<and>
   literal (5 / 10) \<noteq> NaN"
proof -
  let ?a = "\<lparr>f_openness = literal (1 / 10), f_conscientiousness = literal (2 / 10),
              f_extraversion = literal (3 / 10), f_agreeableness = literal (4 / 10),
              f_neuroticism = literal (5 / 10)\<rparr>"
  have "constructor (literal (1 / 10)) (literal (2 / 10)) (literal (3 / 10)) (literal (4 / 10))
          (literal (5 / 10)) = Inr ?a"
    by (simp add: constructor_cases in_unit_interval_def)
  then have a: "reachable ?a" by (rule reachable.constructed)
  show ?thesis
    using a NaN_is_rejected [of "literal (2 / 10)" "literal (3 / 10)" NaN "literal (5 / 10)"
        "literal (6 / 10)" Openness ?a ?a Neuroticism]
    by (simp add: getters)
qed

subsection \<open>C10\<close>

text \<open>
  Claim C10: a setter given a value of \<open>[0, 1]\<close> does not throw, stores the value in
  its own field and leaves the other four fields as they were.
\<close>

theorem setter_changes_one_field:
  "in_unit_interval v \<Longrightarrow> t' \<noteq> t \<Longrightarrow>
   fst (setter t v this) = None \<and>
   getter t (snd (setter t v this)) = v \<and>
   getter t' (snd (setter t v this)) = getter t' this"
  by (cases t; cases t') (simp_all add: setters getters trait_isInRange_iff)

text \<open>
  C10 for \<^verbatim>\<open>conscientiousness = 0.7\<close> on the object of the tests, read through
  \<^verbatim>\<open>neuroticism\<close>.
\<close>

theorem setter_changes_one_field_witness:
  "in_unit_interval (literal (7 / 10)) \<and> Neuroticism \<noteq> Conscientiousness \<and>
   fst (setter Conscientiousness (literal (7 / 10))
     \<lparr>f_openness = literal (1 / 10), f_conscientiousness = literal (2 / 10),
        f_extraversion = literal (3 / 10), f_agreeableness = literal (4 / 10),
        f_neuroticism = literal (5 / 10)\<rparr>) = None \<and>
   getter Conscientiousness (snd (setter Conscientiousness (literal (7 / 10))
     \<lparr>f_openness = literal (1 / 10), f_conscientiousness = literal (2 / 10),
        f_extraversion = literal (3 / 10), f_agreeableness = literal (4 / 10),
        f_neuroticism = literal (5 / 10)\<rparr>)) = literal (7 / 10) \<and>
   getter Neuroticism (snd (setter Conscientiousness (literal (7 / 10))
     \<lparr>f_openness = literal (1 / 10), f_conscientiousness = literal (2 / 10),
        f_extraversion = literal (3 / 10), f_agreeableness = literal (4 / 10),
        f_neuroticism = literal (5 / 10)\<rparr>)) = literal (5 / 10)"
proof -
  have r: "in_unit_interval (literal (7 / 10))" by (simp add: in_unit_interval_def)
  have d: "Neuroticism \<noteq> Conscientiousness" by simp
  show ?thesis
    using r setter_changes_one_field [OF r d,
      of "\<lparr>f_openness = literal (1 / 10), f_conscientiousness = literal (2 / 10),
        f_extraversion = literal (3 / 10), f_agreeableness = literal (4 / 10),
        f_neuroticism = literal (5 / 10)\<rparr>"]
    by (simp add: getters)
qed

end
